theory Spec2Isabelle
  imports Complex_Main "HOL-Library.Multiset"
begin

section \<open>The upload client of pytest-allure3-uploader\<close>

text \<open>
  A shallow embedding of \<^verbatim>\<open>src/pytest_allure3_uploader/client.py\<close>: the archiver
  \<^verbatim>\<open>zip_allure_results\<close> and the operation \<^verbatim>\<open>upload\<close>. Exceptions are values
  of a sum type, the file system and the remote service are explicit arguments, and the
  requests handed to the HTTP session are logged in the state.

  Python strings are \<open>string\<close>s whose characters are code points below 256; bytes are
  \<open>char list\<close>s as well. The interpreter is CPython 3.11 with its defaults, among them
  the limit of 4300 digits on the conversion between integers and decimal text. A float
  is a value of its own kind: not-a-number, an infinity, or a finite number given by its
  exact value.
\<close>

subsection \<open>Exceptions\<close>

datatype py_error =
    FileNotFoundError string
  | TypeError
  | ValueError
  | RequestException string
  | HTTPError int
  | RuntimeError string
  | JSONDecodeError
  | AttributeError
  | StructError
  | OverflowError

subsection \<open>Strings\<close>

text \<open>\<^verbatim>\<open>str.isspace\<close> on the code points below 256, as \<^verbatim>\<open>str.strip()\<close> uses it.\<close>

definition is_space :: "char \<Rightarrow> bool" where
  "is_space c = (c \<in> set [CHR 0x09, CHR 0x0A, CHR 0x0B, CHR 0x0C, CHR 0x0D,
                           CHR 0x1C, CHR 0x1D, CHR 0x1E, CHR 0x1F, CHR 0x20,
                           CHR 0x85, CHR 0xA0])"

text \<open>
  The whitespace \<^verbatim>\<open>int()\<close> skips around the digits of a string: the six ASCII
  characters, and the whitespace above code point 126, which it first turns into spaces.
  The separators U+001C to U+001F are not among them.
\<close>

definition is_int_space :: "char \<Rightarrow> bool" where
  "is_int_space c = (c \<in> set [CHR 0x09, CHR 0x0A, CHR 0x0B, CHR 0x0C, CHR 0x0D, CHR 0x20,
                               CHR 0x85, CHR 0xA0])"

text \<open>The whitespace of \<^verbatim>\<open>bytes\<close>: the six ASCII characters.\<close>

definition is_ascii_space :: "char \<Rightarrow> bool" where
  "is_ascii_space c = (c \<in> set [CHR 0x09, CHR 0x0A, CHR 0x0B, CHR 0x0C, CHR 0x0D, CHR 0x20])"

definition strip_with :: "(char \<Rightarrow> bool) \<Rightarrow> string \<Rightarrow> string" where
  "strip_with sp s = rev (dropWhile sp (rev (dropWhile sp s)))"

definition py_strip :: "string \<Rightarrow> string" where
  "py_strip s = strip_with is_space s"

definition rstrip_slash :: "string \<Rightarrow> string" where
  "rstrip_slash s = rev (dropWhile (\<lambda>c. c = CHR ''/'') (rev s))"

fun starts_with :: "string \<Rightarrow> string \<Rightarrow> bool" where
  "starts_with [] ys = True"
| "starts_with (x # xs) [] = False"
| "starts_with (x # xs) (y # ys) = (x = y \<and> starts_with xs ys)"

text \<open>\<^verbatim>\<open>needle in hay\<close> on strings.\<close>

fun str_contains :: "string \<Rightarrow> string \<Rightarrow> bool" where
  "str_contains needle [] = (needle = [])"
| "str_contains needle (y # ys) = (starts_with needle (y # ys) \<or> str_contains needle ys)"

fun join_with :: "string \<Rightarrow> string list \<Rightarrow> string" where
  "join_with sep [] = []"
| "join_with sep [x] = x"
| "join_with sep (x # y # ys) = x @ sep @ join_with sep (y # ys)"

definition digit_char :: "nat \<Rightarrow> char" where
  "digit_char d = ''0123456789'' ! (d mod 10)"

function str_of_nat :: "nat \<Rightarrow> string" where
  "str_of_nat n = (if n < 10 then [digit_char n] else str_of_nat (n div 10) @ [digit_char (n mod 10)])"
  by pat_completeness auto
termination
  by (relation "measure (\<lambda>n. n)") auto

declare str_of_nat.simps [simp del]

definition str_of_int :: "int \<Rightarrow> string" where
  "str_of_int i = (if i < 0 then CHR ''-'' # str_of_nat (nat (- i)) else str_of_nat (nat i))"

subsection \<open>Paths and the file system\<close>

text \<open>
  A path is the list of its components. The file system maps a path to the node found
  there (\<open>None\<close>: nothing there, or a dangling link). A directory carries its entries in
  the order a scan lists them. A file carries the year of its modification time, in
  local time, and its contents; every file can be opened and read. \<open>SymlinkToFile y b\<close>
  is a symbolic link whose target is a regular file of year \<open>y\<close> with contents \<open>b\<close>,
  \<open>SymlinkToDir cs\<close> a symbolic link whose target is a directory with entries \<open>cs\<close>,
  and \<open>OtherNode\<close> anything else (a fifo, a socket, a device, a dangling link).
\<close>

type_synonym bytes = "char list"
type_synonym path = "string list"

datatype node =
    RegularFile int bytes
  | Directory "(string \<times> node) list"
  | SymlinkToFile int bytes
  | SymlinkToDir "(string \<times> node) list"
  | OtherNode

type_synonym filesystem = "path \<Rightarrow> node option"

text \<open>\<^verbatim>\<open>Path.read_bytes\<close>, defined where \<^verbatim>\<open>Path.is_file\<close> holds: links are followed.\<close>

fun file_bytes :: "node \<Rightarrow> bytes option" where
  "file_bytes (RegularFile y b) = Some b"
| "file_bytes (SymlinkToFile y b) = Some b"
| "file_bytes (Directory cs) = None"
| "file_bytes (SymlinkToDir cs) = None"
| "file_bytes OtherNode = None"

text \<open>What \<^verbatim>\<open>os.stat\<close> and a read give for a path at which \<^verbatim>\<open>is_file\<close> holds.\<close>

fun file_of :: "node \<Rightarrow> (int \<times> bytes) option" where
  "file_of (RegularFile y b) = Some (y, b)"
| "file_of (SymlinkToFile y b) = Some (y, b)"
| "file_of (Directory cs) = None"
| "file_of (SymlinkToDir cs) = None"
| "file_of OtherNode = None"

definition is_file :: "node \<Rightarrow> bool" where
  "is_file n = (file_bytes n \<noteq> None)"

text \<open>\<^verbatim>\<open>Path.is_dir\<close> follows links too.\<close>

fun is_dir :: "node \<Rightarrow> bool" where
  "is_dir (Directory cs) = True"
| "is_dir (SymlinkToDir cs) = True"
| "is_dir (RegularFile y b) = False"
| "is_dir (SymlinkToFile y b) = False"
| "is_dir OtherNode = False"

fun dir_children :: "node \<Rightarrow> (string \<times> node) list" where
  "dir_children (Directory cs) = cs"
| "dir_children (SymlinkToDir cs) = cs"
| "dir_children (RegularFile y b) = []"
| "dir_children (SymlinkToFile y b) = []"
| "dir_children OtherNode = []"

definition as_posix :: "path \<Rightarrow> string" where
  "as_posix p = (if p = [] then ''.'' else join_with ''/'' p)"

text \<open>\<^verbatim>\<open>Path.name\<close>: the final component, empty for the empty path.\<close>

definition path_name :: "path \<Rightarrow> string" where
  "path_name p = (if p = [] then [] else last p)"

text \<open>
  \<^verbatim>\<open>p.rglob("*")\<close>, with paths relative to \<open>p\<close>: for the directory itself and then for
  every subdirectory in pre-order, all the entries of that directory. An entry that is a
  link to a directory is listed, and the walk does not descend into it.
\<close>

fun rglob :: "path \<Rightarrow> node \<Rightarrow> (path \<times> node) list"
  and rglob_children :: "path \<Rightarrow> (string \<times> node) list \<Rightarrow> (path \<times> node) list" where
  "rglob pre (Directory cs) = map (\<lambda>(n, c). (pre @ [n], c)) cs @ rglob_children pre cs"
| "rglob pre (RegularFile y b) = []"
| "rglob pre (SymlinkToFile y b) = []"
| "rglob pre (SymlinkToDir cs) = []"
| "rglob pre OtherNode = []"
| "rglob_children pre [] = []"
| "rglob_children pre ((n, c) # rest) = rglob (pre @ [n]) c @ rglob_children pre rest"

subsection \<open>The archiver\<close>

text \<open>
  The archive is the list of its entries in the order they were written, each with its
  name and the bytes it decompresses to; the container format and the compression are
  those of the \<^verbatim>\<open>zipfile\<close> library and are not modelled.
\<close>

type_synonym archive = "(string \<times> bytes) list"

text \<open>
  \<^verbatim>\<open>zf.write(file_path, arcname=arcname)\<close>: the archive format stores years from 1980
  to 2107. An earlier file is refused with \<^verbatim>\<open>ValueError\<close>, a later one fails with
  \<^verbatim>\<open>struct.error\<close> when its header is packed.
\<close>

definition storable :: "int \<Rightarrow> bool" where
  "storable year = (1980 \<le> year \<and> year \<le> 2107)"

definition zf_write :: "archive \<Rightarrow> int \<Rightarrow> bytes \<Rightarrow> string \<Rightarrow> py_error + archive" where
  "zf_write zf year b arcname =
     (if year < 1980 then Inl ValueError
      else if 2107 < year then Inl StructError
      else Inr (zf @ [(arcname, b)]))"

text \<open>The loop of \<^verbatim>\<open>zip_allure_results\<close> over the walk, \<open>zf\<close> being the archive so far.\<close>

fun zip_write_all :: "(path \<times> node) list \<Rightarrow> archive \<Rightarrow> py_error + archive" where
  "zip_write_all [] zf = Inr zf"
| "zip_write_all ((file_path, n) # rest) zf =
     (case file_of n of
        Some (year, b) \<Rightarrow>
          (case zf_write zf year b (as_posix file_path) of
             Inl e \<Rightarrow> Inl e
           | Inr zf' \<Rightarrow> zip_write_all rest zf')
      | None \<Rightarrow> zip_write_all rest zf)"

text \<open>A path that is a link to a directory is a directory, and its entries are walked.\<close>

definition zip_allure_results :: "filesystem \<Rightarrow> path \<Rightarrow> py_error + archive" where
  "zip_allure_results fsys p =
     (case fsys p of
        None \<Rightarrow> Inl (FileNotFoundError (''allure results dir not found: '' @ as_posix p))
      | Some d \<Rightarrow>
          if \<not> is_dir d
          then Inl (FileNotFoundError (''allure results dir not found: '' @ as_posix p))
          else zip_write_all (rglob [] (Directory (dir_children d))) [])"

subsection \<open>Python values and JSON documents\<close>

text \<open>
  A float: not-a-number, an infinity (\<open>True\<close> for the negative one), or a finite number
  with its exact value.
\<close>

datatype pyfloat = FNaN | FInf bool | FFinite real

text \<open>
  The values metadata is built from. Dictionary keys are \<^verbatim>\<open>None\<close>, booleans, integers
  or strings; a dictionary lists its items in insertion order. \<open>PyBytes\<close> stands for the
  values \<^verbatim>\<open>json.dumps\<close> rejects.
\<close>

datatype pykey = KNone | KBool bool | KInt int | KStr string

datatype pyval =
    PyNone
  | PyBool bool
  | PyInt int
  | PyFloat pyfloat
  | PyStr string
  | PyList "pyval list"
  | PyTuple "pyval list"
  | PyDict "(pykey \<times> pyval) list"
  | PyBytes bytes

text \<open>
  A JSON document, as its syntax tree. An object keeps its members in order, repeated
  names included. A number written with a fraction or an exponent, and each of
  \<^verbatim>\<open>NaN\<close>, \<^verbatim>\<open>Infinity\<close> and \<^verbatim>\<open>-Infinity\<close>, is a \<open>JFloat\<close> with the float it
  denotes; any other number is a \<open>JNum\<close>.
\<close>

datatype json =
    JNull
  | JBool bool
  | JNum int
  | JFloat pyfloat
  | JStr string
  | JArr "json list"
  | JObj "(string \<times> json) list"

text \<open>Truth value of a Python value, for \<^verbatim>\<open>meta or {}\<close>.\<close>

fun py_truthy :: "pyval \<Rightarrow> bool" where
  "py_truthy PyNone = False"
| "py_truthy (PyBool b) = b"
| "py_truthy (PyInt i) = (i \<noteq> 0)"
| "py_truthy (PyFloat f) = (f \<noteq> FFinite 0)"
| "py_truthy (PyStr s) = (s \<noteq> [])"
| "py_truthy (PyList xs) = (xs \<noteq> [])"
| "py_truthy (PyTuple xs) = (xs \<noteq> [])"
| "py_truthy (PyDict kvs) = (kvs \<noteq> [])"
| "py_truthy (PyBytes b) = (b \<noteq> [])"

text \<open>Keys: \<^verbatim>\<open>True == 1\<close> and \<^verbatim>\<open>False == 0\<close> are the same key.\<close>

fun key_num :: "pykey \<Rightarrow> int option" where
  "key_num (KBool b) = Some (if b then 1 else 0)"
| "key_num (KInt i) = Some i"
| "key_num KNone = None"
| "key_num (KStr s) = None"

definition key_eq :: "pykey \<Rightarrow> pykey \<Rightarrow> bool" where
  "key_eq a b =
     (case key_num a of
        Some x \<Rightarrow> (case key_num b of Some y \<Rightarrow> x = y | None \<Rightarrow> False)
      | None \<Rightarrow> (case key_num b of Some y \<Rightarrow> False | None \<Rightarrow> a = b))"

fun dict_get :: "pykey \<Rightarrow> (pykey \<times> 'v) list \<Rightarrow> 'v option" where
  "dict_get k [] = None"
| "dict_get k ((k', v) # rest) = (if key_eq k k' then Some v else dict_get k rest)"

text \<open>\<^verbatim>\<open>d[k] = v\<close>: an existing key keeps its place, a new one goes last.\<close>

fun dict_set :: "pykey \<Rightarrow> 'v \<Rightarrow> (pykey \<times> 'v) list \<Rightarrow> (pykey \<times> 'v) list" where
  "dict_set k v [] = [(k, v)]"
| "dict_set k v ((k', v') # rest) =
     (if key_eq k k' then (k', v) # rest else (k', v') # dict_set k v rest)"

text \<open>
  Numbers compare by exact value across booleans, integers and floats; not-a-number
  equals nothing, itself included.
\<close>

fun num_val :: "pyval \<Rightarrow> pyfloat option" where
  "num_val (PyBool b) = Some (FFinite (if b then 1 else 0))"
| "num_val (PyInt i) = Some (FFinite (of_int i))"
| "num_val (PyFloat f) = Some f"
| "num_val PyNone = None"
| "num_val (PyStr s) = None"
| "num_val (PyList xs) = None"
| "num_val (PyTuple xs) = None"
| "num_val (PyDict kvs) = None"
| "num_val (PyBytes b) = None"

definition num_eq :: "pyfloat \<Rightarrow> pyval \<Rightarrow> bool" where
  "num_eq x b = (case num_val b of None \<Rightarrow> False | Some y \<Rightarrow> x = y \<and> x \<noteq> FNaN)"

text \<open>Python's \<^verbatim>\<open>==\<close> on these values.\<close>

fun py_eq :: "pyval \<Rightarrow> pyval \<Rightarrow> bool"
  and py_eq_list :: "pyval list \<Rightarrow> pyval list \<Rightarrow> bool"
  and py_eq_items :: "(pykey \<times> pyval) list \<Rightarrow> (pykey \<times> pyval) list \<Rightarrow> bool" where
  "py_eq PyNone b = (case b of PyNone \<Rightarrow> True | _ \<Rightarrow> False)"
| "py_eq (PyBool x) b = num_eq (FFinite (if x then 1 else 0)) b"
| "py_eq (PyInt i) b = num_eq (FFinite (of_int i)) b"
| "py_eq (PyFloat f) b = num_eq f b"
| "py_eq (PyStr s) b = (case b of PyStr t \<Rightarrow> s = t | _ \<Rightarrow> False)"
| "py_eq (PyList xs) b = (case b of PyList ys \<Rightarrow> py_eq_list xs ys | _ \<Rightarrow> False)"
| "py_eq (PyTuple xs) b = (case b of PyTuple ys \<Rightarrow> py_eq_list xs ys | _ \<Rightarrow> False)"
| "py_eq (PyDict xs) b =
     (case b of PyDict ys \<Rightarrow> length xs = length ys \<and> py_eq_items xs ys | _ \<Rightarrow> False)"
| "py_eq (PyBytes x) b = (case b of PyBytes y \<Rightarrow> x = y | _ \<Rightarrow> False)"
| "py_eq_list [] ys = (ys = [])"
| "py_eq_list (x # xs) ys =
     (case ys of [] \<Rightarrow> False | y # ys' \<Rightarrow> py_eq x y \<and> py_eq_list xs ys')"
| "py_eq_items [] ys = True"
| "py_eq_items ((k, v) # rest) ys =
     ((case dict_get k ys of None \<Rightarrow> False | Some w \<Rightarrow> py_eq v w) \<and> py_eq_items rest ys)"

text \<open>
  The decimal text of an integer, as \<^verbatim>\<open>int.__repr__\<close> gives it: an integer of more
  than 4300 digits raises \<^verbatim>\<open>ValueError\<close>.
\<close>

definition max_str_digits :: nat where
  "max_str_digits = 4300"

definition int_repr :: "int \<Rightarrow> py_error + string" where
  "int_repr i = (if 10 ^ max_str_digits \<le> \<bar>i\<bar> then Inl ValueError else Inr (str_of_int i))"

text \<open>
  \<^verbatim>\<open>json.dumps\<close>: the document of a value. Lists and tuples both become arrays, a key
  that is not a string is replaced by its JSON spelling, every float is written
  (\<^verbatim>\<open>allow_nan\<close> is on), an integer the interpreter refuses to print raises
  \<^verbatim>\<open>ValueError\<close>, and a value outside the encoder's table raises \<^verbatim>\<open>TypeError\<close>.
\<close>

fun key_to_json :: "pykey \<Rightarrow> py_error + string" where
  "key_to_json (KStr s) = Inr s"
| "key_to_json (KBool b) = Inr (if b then ''true'' else ''false'')"
| "key_to_json KNone = Inr ''null''"
| "key_to_json (KInt i) = int_repr i"

fun json_dumps :: "pyval \<Rightarrow> py_error + json"
  and json_dumps_list :: "pyval list \<Rightarrow> py_error + json list"
  and json_dumps_items :: "(pykey \<times> pyval) list \<Rightarrow> py_error + (string \<times> json) list" where
  "json_dumps PyNone = Inr JNull"
| "json_dumps (PyBool b) = Inr (JBool b)"
| "json_dumps (PyInt i) = (case int_repr i of Inl e \<Rightarrow> Inl e | Inr digits \<Rightarrow> Inr (JNum i))"
| "json_dumps (PyFloat f) = Inr (JFloat f)"
| "json_dumps (PyStr s) = Inr (JStr s)"
| "json_dumps (PyList xs) =
     (case json_dumps_list xs of Inl e \<Rightarrow> Inl e | Inr js \<Rightarrow> Inr (JArr js))"
| "json_dumps (PyTuple xs) =
     (case json_dumps_list xs of Inl e \<Rightarrow> Inl e | Inr js \<Rightarrow> Inr (JArr js))"
| "json_dumps (PyDict kvs) =
     (case json_dumps_items kvs of Inl e \<Rightarrow> Inl e | Inr ms \<Rightarrow> Inr (JObj ms))"
| "json_dumps (PyBytes b) = Inl TypeError"
| "json_dumps_list [] = Inr []"
| "json_dumps_list (x # xs) =
     (case json_dumps x of
        Inl e \<Rightarrow> Inl e
      | Inr j \<Rightarrow> (case json_dumps_list xs of Inl e \<Rightarrow> Inl e | Inr js \<Rightarrow> Inr (j # js)))"
| "json_dumps_items [] = Inr []"
| "json_dumps_items ((k, v) # rest) =
     (case key_to_json k of
        Inl e \<Rightarrow> Inl e
      | Inr name \<Rightarrow>
          (case json_dumps v of
             Inl e \<Rightarrow> Inl e
           | Inr j \<Rightarrow>
               (case json_dumps_items rest of
                  Inl e \<Rightarrow> Inl e
                | Inr ms \<Rightarrow> Inr ((name, j) # ms))))"

text \<open>
  \<^verbatim>\<open>json.loads\<close>, as \<^verbatim>\<open>resp.json()\<close> and any reader of the metadata part apply it:
  the value of a document. An object becomes a dictionary filled member by member, so a
  repeated name keeps its last value.
\<close>

fun json_loads :: "json \<Rightarrow> pyval"
  and json_loads_list :: "json list \<Rightarrow> pyval list"
  and json_loads_members :: "(string \<times> json) list \<Rightarrow> (pykey \<times> pyval) list \<Rightarrow> (pykey \<times> pyval) list" where
  "json_loads JNull = PyNone"
| "json_loads (JBool b) = PyBool b"
| "json_loads (JNum i) = PyInt i"
| "json_loads (JFloat f) = PyFloat f"
| "json_loads (JStr s) = PyStr s"
| "json_loads (JArr js) = PyList (json_loads_list js)"
| "json_loads (JObj ms) = PyDict (json_loads_members ms [])"
| "json_loads_list [] = []"
| "json_loads_list (j # js) = json_loads j # json_loads_list js"
| "json_loads_members [] d = d"
| "json_loads_members ((name, j) # rest) d =
     json_loads_members rest (dict_set (KStr name) (json_loads j) d)"

subsection \<open>Conversion to an integer\<close>

definition is_digit :: "char \<Rightarrow> bool" where
  "is_digit c = (c \<in> set ''0123456789'')"

definition digit_val :: "char \<Rightarrow> nat" where
  "digit_val c = of_char c - 48"

text \<open>
  Decimal digits with single underscores between them; \<open>prev\<close> says that the
  character before was a digit.
\<close>

fun int_digits :: "bool \<Rightarrow> nat \<Rightarrow> string \<Rightarrow> nat option" where
  "int_digits prev acc [] = (if prev then Some acc else None)"
| "int_digits prev acc (c # cs) =
     (if is_digit c then int_digits True (10 * acc + digit_val c) cs
      else if c = CHR ''_'' \<and> prev then int_digits False acc cs
      else None)"

text \<open>The digits of a literal, read unless there are more than 4300 of them.\<close>

definition int_literal :: "string \<Rightarrow> nat option" where
  "int_literal cs =
     (if max_str_digits < length (filter is_digit cs) then None else int_digits False 0 cs)"

definition int_of_text :: "(char \<Rightarrow> bool) \<Rightarrow> string \<Rightarrow> py_error + int" where
  "int_of_text sp s =
     (case strip_with sp s of
        [] \<Rightarrow> Inl ValueError
      | c # cs \<Rightarrow>
          (if c = CHR ''-'' then
             (case int_literal cs of None \<Rightarrow> Inl ValueError | Some n \<Rightarrow> Inr (- int n))
           else if c = CHR ''+'' then
             (case int_literal cs of None \<Rightarrow> Inl ValueError | Some n \<Rightarrow> Inr (int n))
           else
             (case int_literal (c # cs) of None \<Rightarrow> Inl ValueError | Some n \<Rightarrow> Inr (int n))))"

text \<open>
  \<^verbatim>\<open>int(v)\<close>. A finite float is truncated towards zero, not-a-number raises
  \<^verbatim>\<open>ValueError\<close> and an infinity \<^verbatim>\<open>OverflowError\<close>.
\<close>

fun py_int :: "pyval \<Rightarrow> py_error + int" where
  "py_int (PyInt i) = Inr i"
| "py_int (PyBool b) = Inr (if b then 1 else 0)"
| "py_int (PyFloat (FFinite r)) = Inr (if 0 \<le> r then \<lfloor>r\<rfloor> else \<lceil>r\<rceil>)"
| "py_int (PyFloat FNaN) = Inl ValueError"
| "py_int (PyFloat (FInf neg)) = Inl OverflowError"
| "py_int (PyStr s) = int_of_text is_int_space s"
| "py_int (PyBytes b) = int_of_text is_ascii_space b"
| "py_int PyNone = Inl TypeError"
| "py_int (PyList xs) = Inl TypeError"
| "py_int (PyTuple xs) = Inl TypeError"
| "py_int (PyDict kvs) = Inl TypeError"

subsection \<open>Requests, responses and the remote service\<close>

record client =
  base_url :: string
  timeout_s :: real
  verify_tls :: bool
  session_headers :: "(string \<times> string) list"

text \<open>
  \<^verbatim>\<open>AllureUploaderClient.__init__\<close>. \<open>session_headers\<close> are the headers added to the
  session's own defaults.
\<close>

definition init_client ::
  "string \<Rightarrow> real \<Rightarrow> bool \<Rightarrow> (string \<times> string) list option \<Rightarrow> client" where
  "init_client url t v hs =
     \<lparr>base_url = rstrip_slash url, timeout_s = t, verify_tls = v,
      session_headers = (case hs of None \<Rightarrow> [] | Some h \<Rightarrow> h)\<rparr>"

datatype payload =
    ZipBytes archive
  | JsonText json
  | StrText string
  | RawBytes bytes

text \<open>One entry of \<^verbatim>\<open>files\<close>: the form field and its (filename, content, type) triple.\<close>

record part =
  field_name :: string
  filename :: "string option"
  content :: payload
  content_type :: string

record request =
  url :: string
  files :: "part list"
  timeout :: real
  verify :: bool

text \<open>
  What \<^verbatim>\<open>upload\<close> reads of a response: the status code, the value of the
  content-type header (\<open>None\<close> when the header is absent) and the document in the body
  (\<open>None\<close> when the body is not JSON, so that \<^verbatim>\<open>resp.json()\<close> raises). A body
  with an integer of more than 4300 digits, at which \<^verbatim>\<open>resp.json()\<close> raises a plain
  \<^verbatim>\<open>ValueError\<close>, and a body with a string holding a code point above 255 are not
  represented.
\<close>

record response =
  status_code :: int
  content_type_header :: "string option"
  json_body :: "json option"

text \<open>
  The world \<^verbatim>\<open>upload\<close> runs in: the file system, the service behind the session (a
  request either fails in transport, with a message, or is answered), and the requests
  sent so far.
\<close>

record world =
  fs :: filesystem
  server :: "request \<Rightarrow> string + response"
  sent :: "request list"

definition session_post :: "world \<Rightarrow> request \<Rightarrow> (py_error + response) \<times> world" where
  "session_post w req =
     ((case server w req of Inl msg \<Rightarrow> Inl (RequestException msg) | Inr resp \<Rightarrow> Inr resp),
      w\<lparr>sent := sent w @ [req]\<rparr>)"

text \<open>\<^verbatim>\<open>Response.raise_for_status\<close> of the requests library: 4xx and 5xx raise.\<close>

definition raise_for_status :: "response \<Rightarrow> py_error + unit" where
  "raise_for_status resp =
     (if 400 \<le> status_code resp \<and> status_code resp < 600
      then Inl (HTTPError (status_code resp)) else Inr ())"

definition resp_json :: "response \<Rightarrow> py_error + pyval" where
  "resp_json resp =
     (case json_body resp of None \<Rightarrow> Inl JSONDecodeError | Some j \<Rightarrow> Inr (json_loads j))"

subsection \<open>The upload\<close>

record upload_result =
  project :: pyval
  run_id :: int
  ui_url :: pyval
  latest_url :: pyval
  status :: pyval
  error :: pyval

datatype config = ConfigStr string | ConfigPath path

text \<open>Lines 81 to 92: the optional \<^verbatim>\<open>config\<close> entry of \<^verbatim>\<open>files\<close>.\<close>

definition config_files :: "filesystem \<Rightarrow> config option \<Rightarrow> py_error + part list" where
  "config_files fsys cfg =
     (case cfg of
        None \<Rightarrow> Inr []
      | Some (ConfigStr s) \<Rightarrow>
          (let cfg_text = py_strip s in
           if cfg_text \<noteq> [] then
             Inr [\<lparr>field_name = ''config'', filename = Some ''allure.config.mjs'',
                   content = StrText cfg_text, content_type = ''text/javascript''\<rparr>]
           else Inr [])
      | Some (ConfigPath cfg_path) \<Rightarrow>
          (case fsys cfg_path of
             None \<Rightarrow> Inl (FileNotFoundError (''config file not found: '' @ as_posix cfg_path))
           | Some n \<Rightarrow>
               (case file_bytes n of
                  None \<Rightarrow>
                    Inl (FileNotFoundError (''config file not found: '' @ as_posix cfg_path))
                | Some cfg_bytes \<Rightarrow>
                    Inr [\<lparr>field_name = ''config'', filename = Some (path_name cfg_path),
                          content = RawBytes cfg_bytes, content_type = ''text/javascript''\<rparr>])))"

text \<open>Lines 70 to 99: everything \<^verbatim>\<open>upload\<close> does before the request leaves.\<close>

definition upload_request ::
  "client \<Rightarrow> string \<Rightarrow> path \<Rightarrow> pyval \<Rightarrow> config option \<Rightarrow> filesystem \<Rightarrow> py_error + request" where
  "upload_request c proj results_dir meta cfg fsys =
     (let meta' = (if py_truthy meta then meta else PyDict []);
          u = base_url c @ ''/api/v1/projects/'' @ proj @ ''/runs''
      in case zip_allure_results fsys results_dir of
           Inl e \<Rightarrow> Inl e
         | Inr zip_bytes \<Rightarrow>
             (case json_dumps meta' of
                Inl e \<Rightarrow> Inl e
              | Inr doc \<Rightarrow>
                  (case config_files fsys cfg of
                     Inl e \<Rightarrow> Inl e
                   | Inr cfg_part \<Rightarrow>
                       Inr \<lparr>url = u,
                            files =
                              [\<lparr>field_name = ''results'', filename = Some ''allure-results.zip'',
                                content = ZipBytes zip_bytes, content_type = ''application/zip''\<rparr>,
                               \<lparr>field_name = ''meta'', filename = None,
                                content = JsonText doc, content_type = ''application/json''\<rparr>]
                              @ cfg_part,
                            timeout = timeout_s c,
                            verify = verify_tls c\<rparr>)))"

text \<open>\<^verbatim>\<open>data.get(key, default)\<close> on what \<^verbatim>\<open>resp.json()\<close> returned.\<close>

definition data_get :: "(pykey \<times> pyval) list \<Rightarrow> string \<Rightarrow> pyval \<Rightarrow> pyval" where
  "data_get d k dflt = (case dict_get (KStr k) d of None \<Rightarrow> dflt | Some v \<Rightarrow> v)"

text \<open>\<^verbatim>\<open>resp.headers.get("content-type", "")\<close>.\<close>

definition response_content_type :: "response \<Rightarrow> string" where
  "response_content_type resp =
     (case content_type_header resp of None \<Rightarrow> [] | Some v \<Rightarrow> v)"

text \<open>Lines 101 to 115: what \<^verbatim>\<open>upload\<close> makes of the response.\<close>

definition upload_response :: "string \<Rightarrow> response \<Rightarrow> py_error + upload_result" where
  "upload_response proj resp =
     (let ct = response_content_type resp in
      if \<not> str_contains ''application/json'' ct then
        (case raise_for_status resp of
           Inl e \<Rightarrow> Inl e
         | Inr _ \<Rightarrow> Inl (RuntimeError (''Unexpected response content-type: '' @ ct)))
      else
        (case resp_json resp of
           Inl e \<Rightarrow> Inl e
         | Inr (PyDict d) \<Rightarrow>
             (case py_int (data_get d ''run_id'' (PyInt 0)) of
                Inl e \<Rightarrow> Inl e
              | Inr rid \<Rightarrow>
                  Inr \<lparr>project = data_get d ''project'' (PyStr proj),
                       run_id = rid,
                       ui_url = data_get d ''ui_url'' (PyStr []),
                       latest_url = data_get d ''latest_url'' (PyStr []),
                       status = data_get d ''status'' (PyStr ''unknown''),
                       error = data_get d ''error'' PyNone\<rparr>)
         | Inr _ \<Rightarrow> Inl AttributeError))"

definition upload ::
  "client \<Rightarrow> string \<Rightarrow> path \<Rightarrow> pyval \<Rightarrow> config option \<Rightarrow> world
     \<Rightarrow> (py_error + upload_result) \<times> world" where
  "upload c proj results_dir meta cfg w =
     (case upload_request c proj results_dir meta cfg (fs w) of
        Inl e \<Rightarrow> (Inl e, w)
      | Inr req \<Rightarrow>
          (case session_post w req of
             (Inl e, w') \<Rightarrow> (Inl e, w')
           | (Inr resp, w') \<Rightarrow> (upload_response proj resp, w')))"

section \<open>Notions the statements use\<close>

subsection \<open>The files the walk reaches\<close>

text \<open>
  Every path at which \<^verbatim>\<open>is_file\<close> holds and that is reached from a directory through
  directories that are not links, with the year and the bytes found there, by a
  depth-first descent; paths are relative to the directory. Nothing below a link to a
  directory is among them.
\<close>

fun node_files :: "path \<Rightarrow> node \<Rightarrow> (path \<times> int \<times> bytes) list"
  and dir_files :: "path \<Rightarrow> (string \<times> node) list \<Rightarrow> (path \<times> int \<times> bytes) list" where
  "node_files p (RegularFile y b) = [(p, y, b)]"
| "node_files p (SymlinkToFile y b) = [(p, y, b)]"
| "node_files p (SymlinkToDir cs) = []"
| "node_files p OtherNode = []"
| "node_files p (Directory cs) = dir_files p cs"
| "dir_files pre [] = []"
| "dir_files pre ((n, c) # rest) = node_files (pre @ [n]) c @ dir_files pre rest"



text \<open>
  The files of a walk in its own order, the entries named after relative paths, and the
  entries a walk contributes when every write succeeds.
\<close>

definition walked :: "(path \<times> node) list \<Rightarrow> (path \<times> int \<times> bytes) list" where
  "walked xs =
     concat (map (\<lambda>(p, n). case file_of n of Some (y, b) \<Rightarrow> [(p, y, b)] | None \<Rightarrow> []) xs)"

definition named :: "(path \<times> int \<times> bytes) list \<Rightarrow> archive" where
  "named xs = map (\<lambda>(rel, y, b). (as_posix rel, b)) xs"

definition entries_of :: "(path \<times> node) list \<Rightarrow> archive" where
  "entries_of xs = named (walked xs)"

text \<open>Every file the walk reaches below a directory has a year the archive can store.\<close>

definition all_storable :: "(string \<times> node) list \<Rightarrow> bool" where
  "all_storable cs = list_all (\<lambda>(rel, y, b). storable y) (dir_files [] cs)"

subsection \<open>Values that come back equal\<close>

text \<open>
  Values with no tuple, no not-a-number and no dictionary key other than a string
  anywhere inside; a dictionary has no key twice.
\<close>

fun is_str_key :: "pykey \<Rightarrow> bool" where
  "is_str_key (KStr s) = True"
| "is_str_key KNone = False"
| "is_str_key (KBool b) = False"
| "is_str_key (KInt i) = False"

fun json_native :: "pyval \<Rightarrow> bool"
  and json_native_list :: "pyval list \<Rightarrow> bool"
  and json_native_items :: "(pykey \<times> pyval) list \<Rightarrow> bool" where
  "json_native PyNone = True"
| "json_native (PyBool b) = True"
| "json_native (PyInt i) = True"
| "json_native (PyFloat f) = (f \<noteq> FNaN)"
| "json_native (PyStr s) = True"
| "json_native (PyList xs) = json_native_list xs"
| "json_native (PyTuple xs) = False"
| "json_native (PyDict kvs) = (distinct (map fst kvs) \<and> json_native_items kvs)"
| "json_native (PyBytes b) = True"
| "json_native_list [] = True"
| "json_native_list (x # xs) = (json_native x \<and> json_native_list xs)"
| "json_native_items [] = True"
| "json_native_items ((k, v) # rest) = (is_str_key k \<and> json_native v \<and> json_native_items rest)"

subsection \<open>The parts of a request\<close>

definition results_part :: "archive \<Rightarrow> part" where
  "results_part zip_bytes =
     \<lparr>field_name = ''results'', filename = Some ''allure-results.zip'',
      content = ZipBytes zip_bytes, content_type = ''application/zip''\<rparr>"

definition meta_part :: "json \<Rightarrow> part" where
  "meta_part doc =
     \<lparr>field_name = ''meta'', filename = None,
      content = JsonText doc, content_type = ''application/json''\<rparr>"

definition config_part :: "string \<Rightarrow> payload \<Rightarrow> part" where
  "config_part name body =
     \<lparr>field_name = ''config'', filename = Some name,
      content = body, content_type = ''text/javascript''\<rparr>"

text \<open>\<^verbatim>\<open>meta or {}\<close>.\<close>

definition meta_or_empty :: "pyval \<Rightarrow> pyval" where
  "meta_or_empty meta = (if py_truthy meta then meta else PyDict [])"

text \<open>The last member of an object with a given name: the one \<^verbatim>\<open>json.loads\<close> keeps.\<close>

definition member :: "(string \<times> json) list \<Rightarrow> string \<Rightarrow> json option" where
  "member ms k = map_of (rev ms) k"

subsection \<open>A concrete setting\<close>

definition example_dir :: node where
  "example_dir =
     Directory [(''a-result.json'', RegularFile 2024 ''{}''),
                (''sub'', Directory [(''b.txt'', RegularFile 2024 ''hi'')])]"

definition example_fs :: filesystem where
  "example_fs =
     (\<lambda>p. if p = [''allure-results''] then Some example_dir
          else if p = [''conf'', ''allure.config.mjs'']
            then Some (RegularFile 2024 ''export default {}'')
          else None)"

definition example_client :: client where
  "example_client = init_client ''http://allure.test/'' 60 True None"

definition example_world :: "response \<Rightarrow> world" where
  "example_world resp = \<lparr>fs = example_fs, server = (\<lambda>req. Inr resp), sent = []\<rparr>"

definition example_archive :: archive where
  "example_archive = [(''a-result.json'', ''{}''), (''sub/b.txt'', ''hi'')]"

definition example_request :: "string \<Rightarrow> json \<Rightarrow> part list \<Rightarrow> request" where
  "example_request proj doc cfg_part =
     \<lparr>url = ''http://allure.test/api/v1/projects/'' @ proj @ ''/runs'',
      files = [results_part example_archive, meta_part doc] @ cfg_part,
      timeout = 60, verify = True\<rparr>"

definition json_response :: "int \<Rightarrow> json \<Rightarrow> response" where
  "json_response code doc =
     \<lparr>status_code = code, content_type_header = Some ''application/json'', json_body = Some doc\<rparr>"

definition page_response :: "int \<Rightarrow> response" where
  "page_response code =
     \<lparr>status_code = code, content_type_header = Some ''text/html'', json_body = None\<rparr>"






definition bare_fs :: filesystem where
  "bare_fs = (\<lambda>p. if p = [''allure-results''] then Some example_dir else None)"

definition example_meta :: "(pykey \<times> pyval) list" where
  "example_meta =
     [(KStr ''trigger'', PyStr ''local''),
      (KStr ''branch'', PyNone),
      (KStr ''pytest_exitstatus'', PyInt 1),
      (KStr ''pytest_stats'', PyDict [(KStr ''passed'', PyInt 3), (KStr ''failed'', PyInt 1)]),
      (KStr ''tags'', PyList [PyStr ''smoke'', PyBool True]),
      (KStr ''duration'', PyFloat (FFinite 1.5)),
      (KStr ''budget'', PyFloat (FInf False))]"

definition example_meta_doc :: json where
  "example_meta_doc =
     JObj [(''trigger'', JStr ''local''),
           (''branch'', JNull),
           (''pytest_exitstatus'', JNum 1),
           (''pytest_stats'', JObj [(''passed'', JNum 3), (''failed'', JNum 1)]),
           (''tags'', JArr [JStr ''smoke'', JBool True]),
           (''duration'', JFloat (FFinite 1.5)),
           (''budget'', JFloat (FInf False))]"

definition tuple_meta :: pyval where
  "tuple_meta = PyDict [(KStr ''shards'', PyTuple [PyInt 1, PyInt 2])]"


section \<open>Basic facts\<close>

lemma walked_simps [simp]:
  "walked [] = []"
  "walked ((p, n) # xs) = (case file_of n of Some (y, b) \<Rightarrow> [(p, y, b)] | None \<Rightarrow> []) @ walked xs"
  "walked (xs @ ys) = walked xs @ walked ys"
  by (simp_all add: walked_def)

lemma named_simps [simp]:
  "named [] = []"
  "named (xs @ ys) = named xs @ named ys"
  "named ((p, y, b) # xs) = (as_posix p, b) # named xs"
  by (simp_all add: named_def)

lemma entries_of_simps [simp]:
  "entries_of [] = []"
  "entries_of (xs @ ys) = entries_of xs @ entries_of ys"
  by (simp_all add: entries_of_def)

lemma zip_write_all_stored:
  "list_all (\<lambda>(rel, y, b). storable y) (walked xs) \<Longrightarrow>
   zip_write_all xs zf = Inr (zf @ entries_of xs)"
proof (induction xs zf rule: zip_write_all.induct)
  case (1 zf)
  show ?case by simp
next
  case (2 file_path n rest zf)
  show ?case
  proof (cases "file_of n")
    case None
    with 2 show ?thesis by (simp add: entries_of_def)
  next
    case (Some yb)
    obtain y b where yb: "yb = (y, b)" by (cases yb)
    have s: "storable y" using 2(3) Some yb by simp
    have w: "zf_write zf y b (as_posix file_path) = Inr (zf @ [(as_posix file_path, b)])"
      using s by (auto simp: zf_write_def storable_def)
    have "zip_write_all rest (zf @ [(as_posix file_path, b)])
            = Inr ((zf @ [(as_posix file_path, b)]) @ entries_of rest)"
      using 2(2) [OF Some yb [symmetric] w] 2(3) Some yb by simp
    then show ?thesis
      using Some yb w by (simp add: entries_of_def)
  qed
qed

lemma zip_write_all_refused:
  "\<not> list_all (\<lambda>(rel, y, b). storable y) (walked xs) \<Longrightarrow>
   zip_write_all xs zf = Inl ValueError \<or> zip_write_all xs zf = Inl StructError"
proof (induction xs zf rule: zip_write_all.induct)
  case (1 zf)
  then show ?case by simp
next
  case (2 file_path n rest zf)
  show ?case
  proof (cases "file_of n")
    case None
    with 2 show ?thesis by simp
  next
    case (Some yb)
    obtain y b where yb: "yb = (y, b)" by (cases yb)
    show ?thesis
    proof (cases "storable y")
      case False
      then show ?thesis
        using Some yb by (auto simp: zf_write_def storable_def)
    next
      case True
      then have w: "zf_write zf y b (as_posix file_path) = Inr (zf @ [(as_posix file_path, b)])"
        by (auto simp: zf_write_def storable_def)
      have "\<not> list_all (\<lambda>(rel, y, b). storable y) (walked rest)"
        using 2(3) Some yb True by simp
      from 2(2) [OF Some yb [symmetric] w this] show ?thesis
        using Some yb w by simp
    qed
  qed
qed

lemma zip_write_all_InrD:
  assumes "zip_write_all xs zf = Inr arch"
  shows "list_all (\<lambda>(rel, y, b). storable y) (walked xs) \<and> arch = zf @ entries_of xs"
proof (cases "list_all (\<lambda>(rel, y, b). storable y) (walked xs)")
  case True
  with zip_write_all_stored [OF True, of zf] assms show ?thesis by simp
next
  case False
  with zip_write_all_refused [OF False, of zf] assms show ?thesis by auto
qed

lemma zip_allure_results_dir:
  assumes "fsys p = Some d" and "is_dir d"
  shows "zip_allure_results fsys p = zip_write_all (rglob [] (Directory (dir_children d))) []"
  using assms by (simp add: zip_allure_results_def)

lemma zip_allure_results_InrD:
  assumes "zip_allure_results fsys p = Inr arch"
  shows "\<exists>d. fsys p = Some d \<and> is_dir d
           \<and> arch = entries_of (rglob [] (Directory (dir_children d)))"
proof (cases "fsys p")
  case None
  with assms show ?thesis by (simp add: zip_allure_results_def)
next
  case (Some d)
  with assms have d: "is_dir d"
    by (auto simp: zip_allure_results_def split: if_splits)
  with assms Some have "zip_write_all (rglob [] (Directory (dir_children d))) [] = Inr arch"
    by (simp add: zip_allure_results_def)
  from zip_write_all_InrD [OF this] Some d show ?thesis by simp
qed

lemma upload_request_built:
  assumes "zip_allure_results fsys rd = Inr arch"
    and "json_dumps (meta_or_empty meta) = Inr doc"
    and "config_files fsys cfg = Inr cp"
  shows "upload_request c proj rd meta cfg fsys =
           Inr \<lparr>url = base_url c @ ''/api/v1/projects/'' @ proj @ ''/runs'',
                files = [results_part arch, meta_part doc] @ cp,
                timeout = timeout_s c, verify = verify_tls c\<rparr>"
  using assms
  by (simp add: upload_request_def meta_or_empty_def results_part_def meta_part_def)

lemma upload_request_InrD:
  assumes "upload_request c proj rd meta cfg fsys = Inr req"
  shows "\<exists>arch doc cp. zip_allure_results fsys rd = Inr arch
           \<and> json_dumps (meta_or_empty meta) = Inr doc
           \<and> config_files fsys cfg = Inr cp
           \<and> req = \<lparr>url = base_url c @ ''/api/v1/projects/'' @ proj @ ''/runs'',
                files = [results_part arch, meta_part doc] @ cp,
                timeout = timeout_s c, verify = verify_tls c\<rparr>"
proof -
  from assms obtain arch where z: "zip_allure_results fsys rd = Inr arch"
    by (cases "zip_allure_results fsys rd") (simp_all add: upload_request_def)
  from assms z obtain doc where d: "json_dumps (meta_or_empty meta) = Inr doc"
    by (cases "json_dumps (meta_or_empty meta)")
       (simp_all add: upload_request_def meta_or_empty_def)
  from assms z d obtain cp where p: "config_files fsys cfg = Inr cp"
    by (cases "config_files fsys cfg")
       (simp_all add: upload_request_def meta_or_empty_def)
  from upload_request_built [OF z d p, of c proj] assms show ?thesis
    using z d p by auto
qed

lemma upload_not_built:
  "upload_request c proj rd meta cfg (fs w) = Inl e \<Longrightarrow> upload c proj rd meta cfg w = (Inl e, w)"
  by (simp add: upload_def)

lemma upload_posted:
  assumes "upload_request c proj rd meta cfg (fs w) = Inr req"
  shows "snd (upload c proj rd meta cfg w) = w\<lparr>sent := sent w @ [req]\<rparr>"
  using assms
  by (simp add: upload_def session_post_def split: sum.splits)

lemma upload_answered:
  assumes "upload_request c proj rd meta cfg (fs w) = Inr req"
    and "server w req = Inr resp"
  shows "fst (upload c proj rd meta cfg w) = upload_response proj resp"
  using assms by (simp add: upload_def session_post_def)

lemma upload_transport_failed:
  assumes "upload_request c proj rd meta cfg (fs w) = Inr req"
    and "server w req = Inl msg"
  shows "fst (upload c proj rd meta cfg w) = Inl (RequestException msg)"
  using assms by (simp add: upload_def session_post_def)

lemma example_zip: "zip_allure_results example_fs [''allure-results''] = Inr example_archive"
  by (simp add: zip_allure_results_def example_fs_def example_dir_def example_archive_def
        zf_write_def as_posix_def)

lemma example_request_built:
  assumes "json_dumps (meta_or_empty meta) = Inr doc"
    and "config_files example_fs cfg = Inr cp"
  shows "upload_request example_client proj [''allure-results''] meta cfg example_fs
           = Inr (example_request proj doc cp)"
  using upload_request_built [OF example_zip assms, of example_client proj]
  by (simp add: example_request_def example_client_def init_client_def rstrip_slash_def)

lemma rglob_walked:
  "mset (case d of Directory cs \<Rightarrow> dir_files pre cs | _ \<Rightarrow> []) = mset (walked (rglob pre d))"
  "mset (dir_files pre cs)
     = mset (walked (map (\<lambda>(n, c). (pre @ [n], c)) cs @ rglob_children pre cs))"
proof (induction pre d and pre cs rule: rglob_rglob_children.induct)
  case (7 pre n c rest)
  then show ?case by (cases c) (simp_all add: ac_simps)
qed simp_all

lemma dir_files_walked:
  "mset (dir_files [] cs) = mset (walked (rglob [] (Directory cs)))"
  using rglob_walked(1) [where d = "Directory cs" and pre = "[]"] by simp

lemma all_storable_walked:
  "all_storable cs
     \<longleftrightarrow> list_all (\<lambda>(rel, y, b). storable y) (walked (rglob [] (Directory cs)))"
proof -
  have "set (dir_files [] cs) = set (walked (rglob [] (Directory cs)))"
    using dir_files_walked [of cs] by (metis set_mset_mset)
  then show ?thesis
    by (simp add: all_storable_def list_all_iff)
qed

lemma zip_allure_results_stored:
  assumes "fsys p = Some (Directory cs)" and "all_storable cs"
  shows "zip_allure_results fsys p = Inr (entries_of (rglob [] (Directory cs)))"
proof -
  have "zip_allure_results fsys p = zip_write_all (rglob [] (Directory cs)) []"
    using zip_allure_results_dir [of fsys p "Directory cs"] assms(1) by simp
  then show ?thesis
    using zip_write_all_stored [of "rglob [] (Directory cs)" "[]"] assms(2)
    by (simp add: all_storable_walked)
qed

lemma zip_allure_results_refused:
  assumes "fsys p = Some (Directory cs)" and "\<not> all_storable cs"
  shows "zip_allure_results fsys p = Inl ValueError \<or> zip_allure_results fsys p = Inl StructError"
proof -
  have "zip_allure_results fsys p = zip_write_all (rglob [] (Directory cs)) []"
    using zip_allure_results_dir [of fsys p "Directory cs"] assms(1) by simp
  then show ?thesis
    using zip_write_all_refused [of "rglob [] (Directory cs)" "[]"] assms(2)
    by (simp add: all_storable_walked)
qed

lemma upload_request_dir_built:
  assumes "fsys rd = Some (Directory cs)" and "all_storable cs"
    and "json_dumps (meta_or_empty meta) = Inr doc"
    and "config_files fsys cfg = Inr cp"
  shows "upload_request c proj rd meta cfg fsys =
           Inr \<lparr>url = base_url c @ ''/api/v1/projects/'' @ proj @ ''/runs'',
                files = [results_part (entries_of (rglob [] (Directory cs))), meta_part doc] @ cp,
                timeout = timeout_s c, verify = verify_tls c\<rparr>"
  using upload_request_built
    [OF zip_allure_results_stored [of fsys rd cs, OF assms(1,2)] assms(3,4)] .

lemma example_dir_at:
  "example_fs [''allure-results'']
     = Some (Directory [(''a-result.json'', RegularFile 2024 ''{}''),
                        (''sub'', Directory [(''b.txt'', RegularFile 2024 ''hi'')])])"
  by (simp add: example_fs_def example_dir_def)

lemma example_dir_storable:
  "all_storable [(''a-result.json'', RegularFile 2024 ''{}''),
                 (''sub'', Directory [(''b.txt'', RegularFile 2024 ''hi'')])]"
  by (simp add: all_storable_def storable_def)

lemma example_archive_unfolded:
  "entries_of (rglob [] (Directory [(''a-result.json'', RegularFile 2024 ''{}''),
                        (''sub'', Directory [(''b.txt'', RegularFile 2024 ''hi'')])])) = example_archive"
  using zip_allure_results_stored [of example_fs "[''allure-results'']", OF example_dir_at
      example_dir_storable] example_zip
  by simp


section \<open>Responses that are not JSON\<close>

lemma example_posted:
  assumes "upload_request example_client proj rd meta cfg example_fs = Inr req"
  shows "fst (upload example_client proj rd meta cfg (example_world resp)) = upload_response proj resp"
    and "sent (snd (upload example_client proj rd meta cfg (example_world resp))) = [req]"
proof -
  have r: "upload_request example_client proj rd meta cfg (fs (example_world resp)) = Inr req"
    using assms by (simp add: example_world_def)
  have s: "server (example_world resp) req = Inr resp"
    by (simp add: example_world_def)
  show "fst (upload example_client proj rd meta cfg (example_world resp)) = upload_response proj resp"
    using upload_answered [OF r s] .
  show "sent (snd (upload example_client proj rd meta cfg (example_world resp))) = [req]"
    using upload_posted [OF r] by (simp add: example_world_def)
qed

lemma json_dumps_no_meta: "json_dumps (meta_or_empty PyNone) = Inr (JObj [])"
  by (simp add: meta_or_empty_def)

lemma config_files_none: "config_files fsys None = Inr []"
  by (simp add: config_files_def)

lemma not_json_page: "\<not> str_contains ''application/json'' (response_content_type (page_response code))"
  by (simp add: response_content_type_def page_response_def)

lemma upload_response_not_json:
  assumes "\<not> str_contains ''application/json'' (response_content_type resp)"
  shows "upload_response proj resp =
           (if 400 \<le> status_code resp \<and> status_code resp < 600
            then Inl (HTTPError (status_code resp))
            else Inl (RuntimeError (''Unexpected response content-type: '' @ response_content_type resp)))"
  using assms by (simp add: upload_response_def raise_for_status_def Let_def)

text \<open>
  C1, as amended. When the content type of the response does not contain
  \<^verbatim>\<open>application/json\<close>, the status check comes first: a status from 400 to 599
  raises the HTTP-status error, and every other status, the 2xx ones among them, raises
  the unexpected-content-type error, whose message ends with the content type observed.
\<close>

theorem upload_non_json_response:
  assumes "upload_request c proj rd meta cfg (fs w) = Inr req"
    and "server w req = Inr resp"
    and "\<not> str_contains ''application/json'' (response_content_type resp)"
  shows "fst (upload c proj rd meta cfg w) =
           (if 400 \<le> status_code resp \<and> status_code resp < 600
            then Inl (HTTPError (status_code resp))
            else Inl (RuntimeError
                   (''Unexpected response content-type: '' @ response_content_type resp)))"
  using upload_answered [OF assms(1,2)] upload_response_not_json [OF assms(3)] by simp

theorem upload_non_json_response_witness:
  "fst (upload example_client ''p1'' [''allure-results''] PyNone None (example_world (page_response 503)))
     = Inl (HTTPError 503)
   \<and> fst (upload example_client ''p1'' [''allure-results''] PyNone None (example_world (page_response 200)))
     = Inl (RuntimeError ''Unexpected response content-type: text/html'')"
proof -
  have r: "upload_request example_client ''p1'' [''allure-results''] PyNone None (fs (example_world resp))
             = Inr (example_request ''p1'' (JObj []) [])" for resp
    using example_request_built [OF json_dumps_no_meta config_files_none]
    by (simp add: example_world_def)
  have s: "server (example_world resp) req = Inr resp" for resp req
    by (simp add: example_world_def)
  show ?thesis
    using upload_non_json_response [OF r s not_json_page, of 503]
      upload_non_json_response [OF r s not_json_page, of 200]
    by (simp add: page_response_def response_content_type_def)
qed

text \<open>
  Against C1 as stated: status 304 is not a 2xx status, the body is an HTML page, and
  the error raised is the content-type error, not the status error.
\<close>

theorem upload_non_json_response_counterexample:
  "status_code (page_response 304) = 304
   \<and> \<not> str_contains ''application/json'' (response_content_type (page_response 304))
   \<and> fst (upload example_client ''p1'' [''allure-results''] PyNone None (example_world (page_response 304)))
     = Inl (RuntimeError ''Unexpected response content-type: text/html'')"
proof -
  have r: "upload_request example_client ''p1'' [''allure-results''] PyNone None example_fs
             = Inr (example_request ''p1'' (JObj []) [])"
    using example_request_built [OF json_dumps_no_meta config_files_none] .
  have "upload_response ''p1'' (page_response 304)
          = Inl (RuntimeError ''Unexpected response content-type: text/html'')"
    using upload_response_not_json [OF not_json_page, of "''p1''" 304]
    by (simp add: page_response_def response_content_type_def)
  then show ?thesis
    using example_posted(1) [OF r] not_json_page [of 304] by (simp add: page_response_def)
qed

section \<open>The project and the metadata part\<close>

lemma upload_response_empty_object:
  "upload_response proj (json_response code (JObj []))
     = Inr \<lparr>project = PyStr proj, run_id = 0, ui_url = PyStr [], latest_url = PyStr [],
            status = PyStr ''unknown'', error = PyNone\<rparr>"
  by (simp add: upload_response_def json_response_def response_content_type_def
        resp_json_def data_get_def)

text \<open>
  C2, as amended. \<^verbatim>\<open>upload\<close> does not validate \<^verbatim>\<open>project\<close>: with the empty
  string, an existing results directory whose files the archive can store, serializable
  metadata and an acceptable config, it archives, builds the request for the URL
  \<^verbatim>\<open>{base}/api/v1/projects//runs\<close> and sends it.
\<close>

theorem upload_empty_project_is_sent:
  assumes "fs w rd = Some (Directory cs)"
    and "all_storable cs"
    and "json_dumps (meta_or_empty meta) = Inr doc"
    and "config_files (fs w) cfg = Inr cp"
  shows "\<exists>req. upload_request c [] rd meta cfg (fs w) = Inr req
           \<and> url req = base_url c @ ''/api/v1/projects//runs''
           \<and> sent (snd (upload c [] rd meta cfg w)) = sent w @ [req]"
proof -
  let ?req = "\<lparr>url = base_url c @ ''/api/v1/projects/'' @ [] @ ''/runs'',
                files = [results_part (entries_of (rglob [] (Directory cs))), meta_part doc] @ cp,
                timeout = timeout_s c, verify = verify_tls c\<rparr>"
  have r: "upload_request c [] rd meta cfg (fs w) = Inr ?req"
    using upload_request_dir_built [of "fs w" rd cs, OF assms] .
  have "sent (snd (upload c [] rd meta cfg w)) = sent w @ [?req]"
    using upload_posted [OF r] by simp
  with r show ?thesis by simp
qed

theorem upload_empty_project_is_sent_witness:
  "\<exists>req. upload_request example_client [] [''allure-results''] PyNone None example_fs = Inr req
     \<and> url req = ''http://allure.test/api/v1/projects//runs''
     \<and> sent (snd (upload example_client [] [''allure-results''] PyNone None
                (example_world (json_response 200 (JObj []))))) = [req]"
proof -
  have d: "fs (example_world (json_response 200 (JObj []))) [''allure-results'']
             = Some (Directory [(''a-result.json'', RegularFile 2024 ''{}''),
                                (''sub'', Directory [(''b.txt'', RegularFile 2024 ''hi'')])])"
    by (simp add: example_world_def example_fs_def example_dir_def)
  show ?thesis
    using upload_empty_project_is_sent [where w = "example_world (json_response 200 (JObj []))"
        and rd = "[''allure-results'']" and c = example_client,
        OF d example_dir_storable json_dumps_no_meta config_files_none]
    by (simp add: example_world_def example_client_def init_client_def rstrip_slash_def)
qed

text \<open>
  Against C2 as stated: with the empty project the call does not fail in a validation
  step; the request goes out and the result is returned.
\<close>

theorem upload_empty_project_counterexample:
  "fst (upload example_client [] [''allure-results''] PyNone None
          (example_world (json_response 200 (JObj []))))
     = Inr \<lparr>project = PyStr [], run_id = 0, ui_url = PyStr [], latest_url = PyStr [],
            status = PyStr ''unknown'', error = PyNone\<rparr>
   \<and> map url (sent (snd (upload example_client [] [''allure-results''] PyNone None
          (example_world (json_response 200 (JObj []))))))
     = [''http://allure.test/api/v1/projects//runs'']"
proof -
  have r: "upload_request example_client [] [''allure-results''] PyNone None example_fs
             = Inr (example_request [] (JObj []) [])"
    using example_request_built [OF json_dumps_no_meta config_files_none] .
  show ?thesis
    using example_posted [OF r, of "json_response 200 (JObj [])"]
      upload_response_empty_object [of "[]" 200]
    by (simp add: example_request_def)
qed

text \<open>
  C3, as amended. The serialized metadata is carried in the part named \<^verbatim>\<open>meta\<close>, with
  no file name and content type \<^verbatim>\<open>application/json\<close>; it is the second part of the
  request, the only one of that name, and no part is named \<^verbatim>\<open>results-metadata\<close>.
\<close>

theorem upload_meta_part:
  assumes "upload_request c proj rd meta cfg fsys = Inr req"
  shows "\<exists>doc. json_dumps (meta_or_empty meta) = Inr doc
           \<and> files req ! 1 = \<lparr>field_name = ''meta'', filename = None,
                               content = JsonText doc, content_type = ''application/json''\<rparr>
           \<and> filter (\<lambda>p. field_name p = ''meta'') (files req) = [files req ! 1]
           \<and> filter (\<lambda>p. field_name p = ''results-metadata'') (files req) = []"
proof -
  from upload_request_InrD [OF assms] obtain arch doc cp where
    d: "json_dumps (meta_or_empty meta) = Inr doc" and
    p: "config_files fsys cfg = Inr cp" and
    r: "req = \<lparr>url = base_url c @ ''/api/v1/projects/'' @ proj @ ''/runs'',
               files = [results_part arch, meta_part doc] @ cp,
               timeout = timeout_s c, verify = verify_tls c\<rparr>"
    by blast
  have n: "\<forall>q \<in> set cp. field_name q = ''config''"
    using p by (auto simp: config_files_def Let_def split: option.splits config.splits if_splits)
  have f1: "filter (\<lambda>p. field_name p = ''meta'') cp = []"
    using n by (auto simp: filter_empty_conv)
  have f2: "filter (\<lambda>p. field_name p = ''results-metadata'') cp = []"
    using n by (auto simp: filter_empty_conv)
  show ?thesis
    using d r f1 f2 by (simp add: results_part_def meta_part_def)
qed

theorem upload_meta_part_witness:
  "json_dumps (meta_or_empty PyNone) = Inr (JObj [])
   \<and> files (example_request ''p1'' (JObj []) []) ! 1
       = \<lparr>field_name = ''meta'', filename = None,
          content = JsonText (JObj []), content_type = ''application/json''\<rparr>
   \<and> filter (\<lambda>p. field_name p = ''meta'') (files (example_request ''p1'' (JObj []) []))
       = [files (example_request ''p1'' (JObj []) []) ! 1]
   \<and> filter (\<lambda>p. field_name p = ''results-metadata'') (files (example_request ''p1'' (JObj []) [])) = []"
proof -
  have r: "upload_request example_client ''p1'' [''allure-results''] PyNone None example_fs
             = Inr (example_request ''p1'' (JObj []) [])"
    using example_request_built [OF json_dumps_no_meta config_files_none] .
  show ?thesis
    using upload_meta_part [OF r] json_dumps_no_meta by auto
qed

text \<open>
  Against C3 as stated: the parts of a request are named \<^verbatim>\<open>results\<close> and \<^verbatim>\<open>meta\<close>;
  none is named \<^verbatim>\<open>results-metadata\<close>.
\<close>

theorem upload_meta_part_counterexample:
  "upload_request example_client ''p1'' [''allure-results''] PyNone None example_fs
     = Inr (example_request ''p1'' (JObj []) [])
   \<and> map field_name (files (example_request ''p1'' (JObj []) [])) = [''results'', ''meta'']
   \<and> ''results-metadata'' \<notin> set (map field_name (files (example_request ''p1'' (JObj []) [])))"
  using example_request_built [OF json_dumps_no_meta config_files_none, of "''p1''"]
  by (simp add: example_request_def results_part_def meta_part_def)


section \<open>Not-found errors come before the network\<close>

lemma int_of_text_error: "int_of_text sp s = Inl e \<Longrightarrow> e = ValueError"
  by (auto simp: int_of_text_def split: list.splits if_splits option.splits)

lemma py_int_error:
  "py_int v = Inl e \<Longrightarrow> e = TypeError \<or> e = ValueError \<or> e = OverflowError"
  by (induction v rule: py_int.induct) (auto dest: int_of_text_error)

lemma upload_response_not_missing_file:
  "upload_response proj resp \<noteq> Inl (FileNotFoundError msg)"
proof
  assume a: "upload_response proj resp = Inl (FileNotFoundError msg)"
  show False
  proof (cases "str_contains ''application/json'' (response_content_type resp)")
    case False
    with a show False
      by (simp add: upload_response_not_json split: if_splits)
  next
    case True
    with a show False
      by (auto simp: upload_response_def resp_json_def Let_def
            split: option.splits sum.splits pyval.splits dest: py_int_error)
  qed
qed

lemma upload_missing_file_unsent:
  assumes "fst (upload c proj rd meta cfg w) = Inl (FileNotFoundError msg)"
  shows "snd (upload c proj rd meta cfg w) = w"
proof (cases "upload_request c proj rd meta cfg (fs w)")
  case (Inl e)
  then show ?thesis by (simp add: upload_not_built)
next
  case (Inr req)
  show ?thesis
  proof (cases "server w req")
    case (Inl m)
    with upload_transport_failed [OF Inr this] assms show ?thesis by simp
  next
    case r: (Inr resp)
    have "fst (upload c proj rd meta cfg w) = upload_response proj resp"
      using upload_answered [OF Inr r] .
    with assms have "upload_response proj resp = Inl (FileNotFoundError msg)"
      by simp
    then show ?thesis
      using upload_response_not_missing_file by blast
  qed
qed

lemma zip_allure_results_missing:
  assumes "fsys rd = None \<or> (\<exists>n. fsys rd = Some n \<and> \<not> is_dir n)"
  shows "zip_allure_results fsys rd
           = Inl (FileNotFoundError (''allure results dir not found: '' @ as_posix rd))"
  using assms by (auto simp: zip_allure_results_def)

lemma config_files_missing:
  assumes "fsys p = None \<or> (\<exists>n. fsys p = Some n \<and> \<not> is_file n)"
  shows "config_files fsys (Some (ConfigPath p))
           = Inl (FileNotFoundError (''config file not found: '' @ as_posix p))"
  using assms by (auto simp: config_files_def is_file_def split: option.splits)

text \<open>
  C7. A results path that does not exist or is not a directory, and a config file
  reference that does not exist or is not a file, make \<^verbatim>\<open>upload\<close> raise the not-found
  error with the world unchanged; and whenever \<^verbatim>\<open>upload\<close> raises a not-found error,
  the world is unchanged: no request has been handed to the session.
\<close>

theorem not_found_before_network:
  "((fs w rd = None \<or> (\<exists>n. fs w rd = Some n \<and> \<not> is_dir n)) \<longrightarrow>
      upload c proj rd meta cfg w
        = (Inl (FileNotFoundError (''allure results dir not found: '' @ as_posix rd)), w))
   \<and> (\<forall>p cs doc.
        cfg = Some (ConfigPath p)
        \<and> (fs w p = None \<or> (\<exists>n. fs w p = Some n \<and> \<not> is_file n))
        \<and> fs w rd = Some (Directory cs) \<and> all_storable cs
        \<and> json_dumps (meta_or_empty meta) = Inr doc \<longrightarrow>
          upload c proj rd meta cfg w
            = (Inl (FileNotFoundError (''config file not found: '' @ as_posix p)), w))
   \<and> (\<forall>msg. fst (upload c proj rd meta cfg w) = Inl (FileNotFoundError msg) \<longrightarrow>
          snd (upload c proj rd meta cfg w) = w)"
proof (intro conjI allI impI)
  assume "fs w rd = None \<or> (\<exists>n. fs w rd = Some n \<and> \<not> is_dir n)"
  from zip_allure_results_missing [of "fs w" rd, OF this]
  have "upload_request c proj rd meta cfg (fs w)
          = Inl (FileNotFoundError (''allure results dir not found: '' @ as_posix rd))"
    by (simp add: upload_request_def)
  then show "upload c proj rd meta cfg w
        = (Inl (FileNotFoundError (''allure results dir not found: '' @ as_posix rd)), w)"
    by (rule upload_not_built)
next
  fix p cs doc
  assume a: "cfg = Some (ConfigPath p)
        \<and> (fs w p = None \<or> (\<exists>n. fs w p = Some n \<and> \<not> is_file n))
        \<and> fs w rd = Some (Directory cs) \<and> all_storable cs
        \<and> json_dumps (meta_or_empty meta) = Inr doc"
  then have m: "config_files (fs w) cfg
           = Inl (FileNotFoundError (''config file not found: '' @ as_posix p))"
    using config_files_missing [of "fs w" p] by simp
  have "upload_request c proj rd meta cfg (fs w)
          = Inl (FileNotFoundError (''config file not found: '' @ as_posix p))"
  proof -
    have z: "zip_allure_results (fs w) rd = Inr (entries_of (rglob [] (Directory cs)))"
      using zip_allure_results_stored [of "fs w" rd cs] a by simp
    have d: "json_dumps (if py_truthy meta then meta else PyDict []) = Inr doc"
      using a by (simp add: meta_or_empty_def)
    have c: "cfg = Some (ConfigPath p)"
      using a by simp
    have m': "config_files (fs w) (Some (ConfigPath p))
                = Inl (FileNotFoundError (''config file not found: '' @ as_posix p))"
      using m c by simp
    show ?thesis
      unfolding upload_request_def Let_def c by (simp only: z d m' sum.case)
  qed
  then show "upload c proj rd meta cfg w
            = (Inl (FileNotFoundError (''config file not found: '' @ as_posix p)), w)"
    by (rule upload_not_built)
next
  fix msg
  assume "fst (upload c proj rd meta cfg w) = Inl (FileNotFoundError msg)"
  then show "snd (upload c proj rd meta cfg w) = w"
    by (rule upload_missing_file_unsent)
qed

theorem not_found_before_network_witness:
  "fst (upload example_client ''p1'' [''missing''] PyNone None (example_world (page_response 200)))
     = Inl (FileNotFoundError ''allure results dir not found: missing'')
   \<and> sent (snd (upload example_client ''p1'' [''missing''] PyNone None
                (example_world (page_response 200)))) = []
   \<and> fst (upload example_client ''p1'' [''allure-results''] PyNone
            (Some (ConfigPath [''conf'', ''nope.mjs''])) (example_world (page_response 200)))
     = Inl (FileNotFoundError ''config file not found: conf/nope.mjs'')
   \<and> sent (snd (upload example_client ''p1'' [''allure-results''] PyNone
                (Some (ConfigPath [''conf'', ''nope.mjs''])) (example_world (page_response 200)))) = []"
proof -
  let ?w = "example_world (page_response 200)"
  have a: "fs ?w [''missing''] = None"
    by (simp add: example_world_def example_fs_def)
  have b: "fs ?w [''conf'', ''nope.mjs''] = None"
    by (simp add: example_world_def example_fs_def)
  have d: "fs ?w [''allure-results'']
             = Some (Directory [(''a-result.json'', RegularFile 2024 ''{}''),
                                (''sub'', Directory [(''b.txt'', RegularFile 2024 ''hi'')])])"
    by (simp add: example_world_def example_fs_def example_dir_def)
  have s: "sent ?w = []"
    by (simp add: example_world_def)
  have 1: "upload example_client ''p1'' [''missing''] PyNone None ?w
        = (Inl (FileNotFoundError (''allure results dir not found: '' @ as_posix [''missing''])), ?w)"
    using not_found_before_network [of ?w "[''missing'']" example_client "''p1''" PyNone None] a
    by blast
  have 2: "upload example_client ''p1'' [''allure-results''] PyNone
            (Some (ConfigPath [''conf'', ''nope.mjs''])) ?w
        = (Inl (FileNotFoundError (''config file not found: '' @ as_posix [''conf'', ''nope.mjs''])), ?w)"
    using not_found_before_network [of ?w "[''allure-results'']" example_client "''p1''" PyNone
        "Some (ConfigPath [''conf'', ''nope.mjs''])"] b d example_dir_storable json_dumps_no_meta
    by blast
  show ?thesis
    using 1 2 s by (simp add: as_posix_def)
qed

section \<open>The parts of the request\<close>

lemma config_files_text:
  "config_files fsys (Some (ConfigStr s))
     = Inr (if py_strip s = [] then []
            else [config_part ''allure.config.mjs'' (StrText (py_strip s))])"
  by (simp add: config_files_def config_part_def Let_def)

lemma config_files_path:
  assumes "fsys p = Some n" and "file_bytes n = Some b"
  shows "config_files fsys (Some (ConfigPath p)) = Inr [config_part (path_name p) (RawBytes b)]"
  using assms by (simp add: config_files_def config_part_def)

lemma config_files_path_InrD:
  assumes "config_files fsys (Some (ConfigPath p)) = Inr cp"
  shows "\<exists>n b. fsys p = Some n \<and> file_bytes n = Some b
           \<and> cp = [config_part (path_name p) (RawBytes b)]"
  using assms by (auto simp: config_files_def config_part_def split: option.splits)

text \<open>
  C8. With the results directory in place and serializable metadata, the request is
  built and its parts are: exactly the archive part and the metadata part when the
  config is absent or is text that is empty once trimmed; these two and one config part
  with the name \<^verbatim>\<open>allure.config.mjs\<close> and the trimmed text when the config is text that
  is not empty once trimmed; these two and one config part with the base name and the
  bytes of the file when the config is a path at which a file exists. A config part has
  content type \<^verbatim>\<open>text/javascript\<close>.
\<close>

theorem upload_parts:
  assumes "fsys rd = Some (Directory cs)"
    and "all_storable cs"
    and "json_dumps (meta_or_empty meta) = Inr doc"
  shows
    "((cfg = None \<or> (\<exists>s. cfg = Some (ConfigStr s) \<and> py_strip s = [])) \<longrightarrow>
        (\<exists>req. upload_request c proj rd meta cfg fsys = Inr req
           \<and> files req =
               [\<lparr>field_name = ''results'', filename = Some ''allure-results.zip'',
                 content = ZipBytes (entries_of (rglob [] (Directory cs))),
                 content_type = ''application/zip''\<rparr>,
                meta_part doc]))
     \<and> (\<forall>s. cfg = Some (ConfigStr s) \<and> py_strip s \<noteq> [] \<longrightarrow>
        (\<exists>req. upload_request c proj rd meta cfg fsys = Inr req
           \<and> files req =
               [results_part (entries_of (rglob [] (Directory cs))), meta_part doc,
                \<lparr>field_name = ''config'', filename = Some ''allure.config.mjs'',
                 content = StrText (py_strip s), content_type = ''text/javascript''\<rparr>]))
     \<and> (\<forall>p n b. cfg = Some (ConfigPath p) \<and> fsys p = Some n \<and> file_bytes n = Some b \<longrightarrow>
        (\<exists>req. upload_request c proj rd meta cfg fsys = Inr req
           \<and> files req =
               [results_part (entries_of (rglob [] (Directory cs))), meta_part doc,
                \<lparr>field_name = ''config'', filename = Some (path_name p),
                 content = RawBytes b, content_type = ''text/javascript''\<rparr>]))"
proof (intro conjI allI impI)
  assume "cfg = None \<or> (\<exists>s. cfg = Some (ConfigStr s) \<and> py_strip s = [])"
  then have "config_files fsys cfg = Inr []"
    by (auto simp: config_files_none config_files_text)
  from upload_request_dir_built [of fsys rd cs, OF assms this, of c proj]
  show "\<exists>req. upload_request c proj rd meta cfg fsys = Inr req
           \<and> files req =
               [\<lparr>field_name = ''results'', filename = Some ''allure-results.zip'',
                 content = ZipBytes (entries_of (rglob [] (Directory cs))),
                 content_type = ''application/zip''\<rparr>,
                meta_part doc]"
    by (simp add: results_part_def)
next
  fix s
  assume "cfg = Some (ConfigStr s) \<and> py_strip s \<noteq> []"
  then have "config_files fsys cfg = Inr [config_part ''allure.config.mjs'' (StrText (py_strip s))]"
    by (simp add: config_files_text)
  from upload_request_dir_built [of fsys rd cs, OF assms this, of c proj]
  show "\<exists>req. upload_request c proj rd meta cfg fsys = Inr req
           \<and> files req =
               [results_part (entries_of (rglob [] (Directory cs))), meta_part doc,
                \<lparr>field_name = ''config'', filename = Some ''allure.config.mjs'',
                 content = StrText (py_strip s), content_type = ''text/javascript''\<rparr>]"
    by (simp add: config_part_def)
next
  fix p n b
  assume a: "cfg = Some (ConfigPath p) \<and> fsys p = Some n \<and> file_bytes n = Some b"
  then have "config_files fsys cfg = Inr [config_part (path_name p) (RawBytes b)]"
    using config_files_path [of fsys p n b] by simp
  from upload_request_dir_built [of fsys rd cs, OF assms this, of c proj]
  show "\<exists>req. upload_request c proj rd meta cfg fsys = Inr req
           \<and> files req =
               [results_part (entries_of (rglob [] (Directory cs))), meta_part doc,
                \<lparr>field_name = ''config'', filename = Some (path_name p),
                 content = RawBytes b, content_type = ''text/javascript''\<rparr>]"
    by (simp add: config_part_def)
qed

lemma py_strip_examples:
  "py_strip ''   '' = []"
  "py_strip (''export default {}'' @ [CHR 0x0A]) = ''export default {}''"
  "py_strip ''conf/allure.config.mjs'' = ''conf/allure.config.mjs''"
  by (simp_all add: py_strip_def strip_with_def is_space_def)

theorem upload_parts_witness:
  "(\<exists>req. upload_request example_client ''p1'' [''allure-results''] PyNone None example_fs = Inr req
      \<and> map field_name (files req) = [''results'', ''meta''])
   \<and> (\<exists>req. upload_request example_client ''p1'' [''allure-results''] PyNone
              (Some (ConfigStr ''   '')) example_fs = Inr req
      \<and> map field_name (files req) = [''results'', ''meta''])
   \<and> (\<exists>req. upload_request example_client ''p1'' [''allure-results''] PyNone
              (Some (ConfigStr (''export default {}'' @ [CHR 0x0A]))) example_fs = Inr req
      \<and> drop 2 (files req) = [config_part ''allure.config.mjs'' (StrText ''export default {}'')])
   \<and> (\<exists>req. upload_request example_client ''p1'' [''allure-results''] PyNone
              (Some (ConfigPath [''conf'', ''allure.config.mjs''])) example_fs = Inr req
      \<and> drop 2 (files req) = [config_part ''allure.config.mjs'' (RawBytes ''export default {}'')])"
proof -
  have f: "example_fs [''conf'', ''allure.config.mjs''] = Some (RegularFile 2024 ''export default {}'')"
    by (simp add: example_fs_def)
  note t = upload_parts [where fsys = example_fs and rd = "[''allure-results'']"
      and c = example_client and proj = "''p1''",
      OF example_dir_at example_dir_storable json_dumps_no_meta]
  have 1: "\<exists>req. upload_request example_client ''p1'' [''allure-results''] PyNone None example_fs = Inr req
      \<and> map field_name (files req) = [''results'', ''meta'']"
    using t [where cfg = None] by (auto simp: meta_part_def)
  have 2: "\<exists>req. upload_request example_client ''p1'' [''allure-results''] PyNone
              (Some (ConfigStr ''   '')) example_fs = Inr req
      \<and> map field_name (files req) = [''results'', ''meta'']"
    using t [where cfg = "Some (ConfigStr ''   '')"] py_strip_examples(1) by (auto simp: meta_part_def)
  have 3: "\<exists>req. upload_request example_client ''p1'' [''allure-results''] PyNone
              (Some (ConfigStr (''export default {}'' @ [CHR 0x0A]))) example_fs = Inr req
      \<and> drop 2 (files req) = [config_part ''allure.config.mjs'' (StrText ''export default {}'')]"
    using t [where cfg = "Some (ConfigStr (''export default {}'' @ [CHR 0x0A]))"] py_strip_examples(2)
    by (auto simp: config_part_def)
  have 4: "\<exists>req. upload_request example_client ''p1'' [''allure-results''] PyNone
              (Some (ConfigPath [''conf'', ''allure.config.mjs''])) example_fs = Inr req
      \<and> drop 2 (files req) = [config_part ''allure.config.mjs'' (RawBytes ''export default {}'')]"
    using t [where cfg = "Some (ConfigPath [''conf'', ''allure.config.mjs''])"] f
    by (auto simp: config_part_def path_name_def)
  show ?thesis using 1 2 3 4 by blast
qed

section \<open>Inline text and file references\<close>

lemma upload_request_text_fs:
  assumes "fsys' rd = fsys rd"
  shows "upload_request c proj rd meta (Some (ConfigStr s)) fsys'
           = upload_request c proj rd meta (Some (ConfigStr s)) fsys"
proof -
  have a: "config_files fsys' (Some (ConfigStr s)) = config_files fsys (Some (ConfigStr s))"
    by (simp add: config_files_text)
  have b: "zip_allure_results fsys' rd = zip_allure_results fsys rd"
    using assms by (simp add: zip_allure_results_def)
  show ?thesis
    unfolding upload_request_def by (simp only: a b)
qed

lemma upload_fs_only_request:
  assumes "upload_request c proj rd meta cfg fsys' = upload_request c proj rd meta cfg (fs w)"
  shows "fst (upload c proj rd meta cfg (w\<lparr>fs := fsys'\<rparr>)) = fst (upload c proj rd meta cfg w)"
    and "sent (snd (upload c proj rd meta cfg (w\<lparr>fs := fsys'\<rparr>))) = sent (snd (upload c proj rd meta cfg w))"
  using assms
  by (auto simp: upload_def session_post_def split: sum.splits)

text \<open>
  C10, as amended. Which kind of config a call carries is decided by the type of the
  argument alone. For a string the file system is not consulted: replacing the file
  system by any other with the same results directory changes neither the outcome nor
  the requests sent, and the config part, if any, has the name \<^verbatim>\<open>allure.config.mjs\<close>
  and carries the string with surrounding whitespace trimmed (no part when nothing is
  left). Only for a path is the file system read: the part carries the bytes of the file
  at that path under its base name.
\<close>

theorem config_kind_by_type:
  "(\<forall>fsys'. fsys' rd = fs w rd \<longrightarrow>
       fst (upload c proj rd meta (Some (ConfigStr s)) (w\<lparr>fs := fsys'\<rparr>))
         = fst (upload c proj rd meta (Some (ConfigStr s)) w)
       \<and> sent (snd (upload c proj rd meta (Some (ConfigStr s)) (w\<lparr>fs := fsys'\<rparr>)))
         = sent (snd (upload c proj rd meta (Some (ConfigStr s)) w)))
   \<and> (\<forall>req. upload_request c proj rd meta (Some (ConfigStr s)) (fs w) = Inr req \<longrightarrow>
         drop 2 (files req)
           = (if py_strip s = [] then []
              else [\<lparr>field_name = ''config'', filename = Some ''allure.config.mjs'',
                     content = StrText (py_strip s), content_type = ''text/javascript''\<rparr>]))
   \<and> (\<forall>p req. upload_request c proj rd meta (Some (ConfigPath p)) (fs w) = Inr req \<longrightarrow>
         (\<exists>n b. fs w p = Some n \<and> file_bytes n = Some b
            \<and> drop 2 (files req)
                = [\<lparr>field_name = ''config'', filename = Some (path_name p),
                    content = RawBytes b, content_type = ''text/javascript''\<rparr>]))"
proof (intro conjI allI impI)
  fix fsys'
  assume "fsys' rd = fs w rd"
  from upload_request_text_fs [of fsys' rd "fs w", OF this]
  have e: "upload_request c proj rd meta (Some (ConfigStr s)) fsys'
             = upload_request c proj rd meta (Some (ConfigStr s)) (fs w)" .
  show "fst (upload c proj rd meta (Some (ConfigStr s)) (w\<lparr>fs := fsys'\<rparr>))
         = fst (upload c proj rd meta (Some (ConfigStr s)) w)"
    using upload_fs_only_request(1) [OF e] .
  show "sent (snd (upload c proj rd meta (Some (ConfigStr s)) (w\<lparr>fs := fsys'\<rparr>)))
         = sent (snd (upload c proj rd meta (Some (ConfigStr s)) w))"
    using upload_fs_only_request(2) [OF e] .
next
  fix req
  assume "upload_request c proj rd meta (Some (ConfigStr s)) (fs w) = Inr req"
  from upload_request_InrD [OF this] obtain arch doc cp where
    p: "config_files (fs w) (Some (ConfigStr s)) = Inr cp" and
    r: "req = \<lparr>url = base_url c @ ''/api/v1/projects/'' @ proj @ ''/runs'',
               files = [results_part arch, meta_part doc] @ cp,
               timeout = timeout_s c, verify = verify_tls c\<rparr>"
    by blast
  show "drop 2 (files req)
           = (if py_strip s = [] then []
              else [\<lparr>field_name = ''config'', filename = Some ''allure.config.mjs'',
                     content = StrText (py_strip s), content_type = ''text/javascript''\<rparr>])"
    using p r by (auto simp: config_files_text config_part_def)
next
  fix p req
  assume "upload_request c proj rd meta (Some (ConfigPath p)) (fs w) = Inr req"
  from upload_request_InrD [OF this] obtain arch doc cp where
    q: "config_files (fs w) (Some (ConfigPath p)) = Inr cp" and
    r: "req = \<lparr>url = base_url c @ ''/api/v1/projects/'' @ proj @ ''/runs'',
               files = [results_part arch, meta_part doc] @ cp,
               timeout = timeout_s c, verify = verify_tls c\<rparr>"
    by blast
  from config_files_path_InrD [OF q] r
  show "\<exists>n b. fs w p = Some n \<and> file_bytes n = Some b
            \<and> drop 2 (files req)
                = [\<lparr>field_name = ''config'', filename = Some (path_name p),
                    content = RawBytes b, content_type = ''text/javascript''\<rparr>]"
    by (auto simp: config_part_def)
qed

lemma example_request_text:
  "upload_request example_client ''p1'' [''allure-results''] PyNone (Some (ConfigStr s)) example_fs
     = Inr (example_request ''p1'' (JObj [])
              (if py_strip s = [] then [] else [config_part ''allure.config.mjs'' (StrText (py_strip s))]))"
  using example_request_built [OF json_dumps_no_meta config_files_text] .

theorem config_kind_by_type_witness:
  "example_fs [''conf'', ''allure.config.mjs''] = Some (RegularFile 2024 ''export default {}'')
   \<and> bare_fs [''conf'', ''allure.config.mjs''] = None
   \<and> fst (upload example_client ''p1'' [''allure-results''] PyNone
            (Some (ConfigStr ''conf/allure.config.mjs''))
            ((example_world (json_response 200 (JObj [])))\<lparr>fs := bare_fs\<rparr>))
       = fst (upload example_client ''p1'' [''allure-results''] PyNone
            (Some (ConfigStr ''conf/allure.config.mjs'')) (example_world (json_response 200 (JObj []))))
   \<and> drop 2 (files (example_request ''p1'' (JObj [])
         [config_part ''allure.config.mjs'' (StrText ''conf/allure.config.mjs'')]))
       = [\<lparr>field_name = ''config'', filename = Some ''allure.config.mjs'',
           content = StrText ''conf/allure.config.mjs'', content_type = ''text/javascript''\<rparr>]
   \<and> drop 2 (files (example_request ''p1'' (JObj [])
         [config_part ''allure.config.mjs'' (RawBytes ''export default {}'')]))
       = [\<lparr>field_name = ''config'', filename = Some ''allure.config.mjs'',
           content = RawBytes ''export default {}'', content_type = ''text/javascript''\<rparr>]"
proof -
  let ?w = "example_world (json_response 200 (JObj []))"
  let ?s = "''conf/allure.config.mjs''"
  let ?p = "[''conf'', ''allure.config.mjs'']"
  note t = config_kind_by_type [where w = ?w and rd = "[''allure-results'']"
      and c = example_client and proj = "''p1''" and meta = PyNone and s = ?s]
  have f: "example_fs ?p = Some (RegularFile 2024 ''export default {}'')"
    by (simp add: example_fs_def)
  have b: "bare_fs ?p = None"
    by (simp add: bare_fs_def)
  have same: "bare_fs [''allure-results''] = fs ?w [''allure-results'']"
    by (simp add: bare_fs_def example_world_def example_fs_def)
  have 1: "fst (upload example_client ''p1'' [''allure-results''] PyNone (Some (ConfigStr ?s))
                 (?w\<lparr>fs := bare_fs\<rparr>))
           = fst (upload example_client ''p1'' [''allure-results''] PyNone (Some (ConfigStr ?s)) ?w)"
    using t same by blast
  have rs: "upload_request example_client ''p1'' [''allure-results''] PyNone (Some (ConfigStr ?s)) (fs ?w)
              = Inr (example_request ''p1'' (JObj []) [config_part ''allure.config.mjs'' (StrText ?s)])"
    using example_request_text [of ?s] py_strip_examples(3) by (simp add: example_world_def)
  have 2: "drop 2 (files (example_request ''p1'' (JObj []) [config_part ''allure.config.mjs'' (StrText ?s)]))
       = [\<lparr>field_name = ''config'', filename = Some ''allure.config.mjs'',
           content = StrText ?s, content_type = ''text/javascript''\<rparr>]"
    using t rs py_strip_examples(3) by auto
  have rp: "upload_request example_client ''p1'' [''allure-results''] PyNone (Some (ConfigPath ?p)) (fs ?w)
              = Inr (example_request ''p1'' (JObj [])
                       [config_part ''allure.config.mjs'' (RawBytes ''export default {}'')])"
  proof -
    have "config_files example_fs (Some (ConfigPath ?p))
            = Inr [config_part (path_name ?p) (RawBytes ''export default {}'')]"
      using config_files_path [of example_fs ?p "RegularFile 2024 ''export default {}''"] f by simp
    from example_request_built [OF json_dumps_no_meta this, of "''p1''"]
    show ?thesis by (simp add: example_world_def path_name_def)
  qed
  have 3: "drop 2 (files (example_request ''p1'' (JObj [])
         [config_part ''allure.config.mjs'' (RawBytes ''export default {}'')]))
       = [\<lparr>field_name = ''config'', filename = Some ''allure.config.mjs'',
           content = RawBytes ''export default {}'', content_type = ''text/javascript''\<rparr>]"
  proof -
    from t have "\<forall>p req. upload_request example_client ''p1'' [''allure-results''] PyNone
          (Some (ConfigPath p)) (fs ?w) = Inr req \<longrightarrow>
         (\<exists>n b. fs ?w p = Some n \<and> file_bytes n = Some b
            \<and> drop 2 (files req)
                = [\<lparr>field_name = ''config'', filename = Some (path_name p),
                    content = RawBytes b, content_type = ''text/javascript''\<rparr>])"
      by blast
    with rp obtain n b where
      n: "fs ?w ?p = Some n" and nb: "file_bytes n = Some b" and
      d: "drop 2 (files (example_request ''p1'' (JObj [])
             [config_part ''allure.config.mjs'' (RawBytes ''export default {}'')]))
           = [\<lparr>field_name = ''config'', filename = Some (path_name ?p),
                    content = RawBytes b, content_type = ''text/javascript''\<rparr>]"
      by blast
    have "fs ?w ?p = Some (RegularFile 2024 ''export default {}'')"
      using f by (simp add: example_world_def)
    with n nb have "b = ''export default {}''" by auto
    with d show ?thesis by (simp add: path_name_def)
  qed
  show ?thesis using f b 1 2 3 by blast
qed

text \<open>
  Against C10 as stated: a string config is not sent verbatim. Config text that ends
  with a newline is sent without it, and text that is only whitespace is not sent at all.
\<close>

theorem config_kind_by_type_counterexample:
  "upload_request example_client ''p1'' [''allure-results''] PyNone
      (Some (ConfigStr (''export default {}'' @ [CHR 0x0A]))) example_fs
     = Inr (example_request ''p1'' (JObj [])
              [config_part ''allure.config.mjs'' (StrText ''export default {}'')])
   \<and> ''export default {}'' \<noteq> ''export default {}'' @ [CHR 0x0A]
   \<and> upload_request example_client ''p1'' [''allure-results''] PyNone
        (Some (ConfigStr ''   '')) example_fs
     = Inr (example_request ''p1'' (JObj []) [])"
  using example_request_text [of "''export default {}'' @ [CHR 0x0A]"]
    example_request_text [of "''   ''"] py_strip_examples
  by simp


section \<open>Responses that are JSON objects\<close>

lemma key_eq_str [simp]:
  "key_eq (KStr a) k = (k = KStr a)"
  "key_eq k (KStr a) = (k = KStr a)"
  by (cases k; auto simp: key_eq_def)+

lemma dict_get_set_str:
  "dict_get (KStr k) (dict_set (KStr n) v d) = (if k = n then Some v else dict_get (KStr k) d)"
  by (induction d) auto

lemma dict_get_loaded:
  "dict_get (KStr k) (json_loads_members ms d)
     = (case map_of (rev ms) k of Some j \<Rightarrow> Some (json_loads j) | None \<Rightarrow> dict_get (KStr k) d)"
proof (induction ms arbitrary: d)
  case Nil
  show ?case by simp
next
  case (Cons m ms)
  obtain n j where m: "m = (n, j)" by (cases m)
  show ?case
    using Cons.IH [of "dict_set (KStr n) (json_loads j) d"]
    by (simp add: m dict_get_set_str map_add_def split: option.splits)
qed

lemma data_get_loaded:
  "data_get (json_loads_members ms []) k dflt
     = (case member ms k of None \<Rightarrow> dflt | Some j \<Rightarrow> json_loads j)"
  by (simp add: data_get_def member_def dict_get_loaded split: option.splits)

lemma upload_response_object:
  assumes "str_contains ''application/json'' (response_content_type resp)"
    and "json_body resp = Some (JObj ms)"
  shows "upload_response proj resp =
     (case py_int (case member ms ''run_id'' of None \<Rightarrow> PyInt 0 | Some j \<Rightarrow> json_loads j) of
        Inl e \<Rightarrow> Inl e
      | Inr rid \<Rightarrow>
         Inr \<lparr>project = (case member ms ''project'' of None \<Rightarrow> PyStr proj | Some j \<Rightarrow> json_loads j),
              run_id = rid,
              ui_url = (case member ms ''ui_url'' of None \<Rightarrow> PyStr [] | Some j \<Rightarrow> json_loads j),
              latest_url = (case member ms ''latest_url'' of None \<Rightarrow> PyStr [] | Some j \<Rightarrow> json_loads j),
              status = (case member ms ''status'' of None \<Rightarrow> PyStr ''unknown'' | Some j \<Rightarrow> json_loads j),
              error = (case member ms ''error'' of None \<Rightarrow> PyNone | Some j \<Rightarrow> json_loads j)\<rparr>)"
proof -
  have "resp_json resp = Inr (PyDict (json_loads_members ms []))"
    using assms(2) by (simp add: resp_json_def)
  then show ?thesis
    using assms(1) unfolding upload_response_def Let_def
    by (simp only: data_get_loaded if_True not_True_eq_False if_False sum.case pyval.case)
qed

lemma json_loads_dict:
  "json_loads j = PyDict d \<Longrightarrow> \<exists>ms. j = JObj ms"
  by (cases j) simp_all

lemma upload_response_InrD:
  assumes "upload_response proj resp = Inr r"
  shows "str_contains ''application/json'' (response_content_type resp)
         \<and> (\<exists>ms. json_body resp = Some (JObj ms))"
proof -
  have ct: "str_contains ''application/json'' (response_content_type resp)"
  proof (rule ccontr)
    assume "\<not> str_contains ''application/json'' (response_content_type resp)"
    from upload_response_not_json [OF this, of proj] assms show False
      by (simp split: if_splits)
  qed
  from assms ct obtain d where "resp_json resp = Inr (PyDict d)"
    by (auto simp: upload_response_def Let_def split: sum.splits pyval.splits)
  then obtain j where "json_body resp = Some j" "json_loads j = PyDict d"
    by (auto simp: resp_json_def split: option.splits)
  with json_loads_dict ct show ?thesis by blast
qed

lemma upload_InrD:
  assumes "fst (upload c proj rd meta cfg w) = Inr r"
  shows "\<exists>req resp. upload_request c proj rd meta cfg (fs w) = Inr req
           \<and> server w req = Inr resp \<and> upload_response proj resp = Inr r"
proof (cases "upload_request c proj rd meta cfg (fs w)")
  case (Inl e)
  with assms show ?thesis by (simp add: upload_not_built)
next
  case (Inr req)
  show ?thesis
  proof (cases "server w req")
    case (Inl m)
    with upload_transport_failed [OF Inr this] assms show ?thesis by simp
  next
    case r: (Inr resp)
    have "fst (upload c proj rd meta cfg w) = upload_response proj resp"
      using upload_answered [OF Inr r] .
    with assms Inr r show ?thesis by simp
  qed
qed

text \<open>
  C4. When the content type of the response contains \<^verbatim>\<open>application/json\<close> and the
  body is a JSON object, whatever the status code, \<^verbatim>\<open>upload\<close> returns a result in
  which every field the object lacks has its default: the submitted project, run
  identifier 0, empty URLs, status \<^verbatim>\<open>unknown\<close>, error \<^verbatim>\<open>None\<close>; a field the object
  has carries the value sent. An error field in the object is returned, not raised. The
  one condition is that a run identifier, when present, converts to an integer.
\<close>

theorem upload_json_object:
  assumes "upload_request c proj rd meta cfg (fs w) = Inr req"
    and "server w req = Inr resp"
    and "str_contains ''application/json'' (response_content_type resp)"
    and "json_body resp = Some (JObj ms)"
    and "case member ms ''run_id'' of None \<Rightarrow> rid = 0 | Some j \<Rightarrow> py_int (json_loads j) = Inr rid"
  shows "fst (upload c proj rd meta cfg w) =
      Inr \<lparr>project = (case member ms ''project'' of None \<Rightarrow> PyStr proj | Some j \<Rightarrow> json_loads j),
           run_id = rid,
           ui_url = (case member ms ''ui_url'' of None \<Rightarrow> PyStr [] | Some j \<Rightarrow> json_loads j),
           latest_url = (case member ms ''latest_url'' of None \<Rightarrow> PyStr [] | Some j \<Rightarrow> json_loads j),
           status = (case member ms ''status'' of None \<Rightarrow> PyStr ''unknown'' | Some j \<Rightarrow> json_loads j),
           error = (case member ms ''error'' of None \<Rightarrow> PyNone | Some j \<Rightarrow> json_loads j)\<rparr>"
proof -
  have "py_int (case member ms ''run_id'' of None \<Rightarrow> PyInt 0 | Some j \<Rightarrow> json_loads j) = Inr rid"
    using assms(5) by (simp split: option.splits)
  then show ?thesis
    using upload_answered [OF assms(1,2)] upload_response_object [OF assms(3,4), of proj]
    by simp
qed

lemma json_response_ok:
  "str_contains ''application/json'' (response_content_type (json_response code doc))"
  "json_body (json_response code doc) = Some doc"
  by (simp_all add: json_response_def response_content_type_def)

theorem upload_json_object_witness:
  "fst (upload example_client ''p1'' [''allure-results''] PyNone None
          (example_world (json_response 200 (JObj []))))
     = Inr \<lparr>project = PyStr ''p1'', run_id = 0, ui_url = PyStr [], latest_url = PyStr [],
            status = PyStr ''unknown'', error = PyNone\<rparr>
   \<and> fst (upload example_client ''p1'' [''allure-results''] PyNone None
          (example_world (json_response 200
             (JObj [(''run_id'', JNum 42), (''status'', JStr ''failed''), (''error'', JStr ''boom'')]))))
     = Inr \<lparr>project = PyStr ''p1'', run_id = 42, ui_url = PyStr [], latest_url = PyStr [],
            status = PyStr ''failed'', error = PyStr ''boom''\<rparr>"
proof -
  have r: "upload_request example_client ''p1'' [''allure-results''] PyNone None (fs (example_world resp))
             = Inr (example_request ''p1'' (JObj []) [])" for resp
    using example_request_built [OF json_dumps_no_meta config_files_none]
    by (simp add: example_world_def)
  have s: "server (example_world resp) q = Inr resp" for resp q
    by (simp add: example_world_def)
  have a: "case member [] ''run_id'' of None \<Rightarrow> (0::int) = 0 | Some j \<Rightarrow> py_int (json_loads j) = Inr 0"
    by (simp add: member_def)
  have b: "case member [(''run_id'', JNum 42), (''status'', JStr ''failed''), (''error'', JStr ''boom'')] ''run_id''
           of None \<Rightarrow> (42::int) = 0 | Some j \<Rightarrow> py_int (json_loads j) = Inr 42"
    by (simp add: member_def)
  show ?thesis
    using upload_json_object [OF r s json_response_ok a, of 200]
      upload_json_object [OF r s json_response_ok b, of 200]
    by (simp add: member_def)
qed

text \<open>
  C5, as amended. In every result \<^verbatim>\<open>upload\<close> returns, the run identifier is 0 when
  the object in the response has no run identifier, and otherwise what \<^verbatim>\<open>int\<close> makes
  of the value sent: for a JSON integer that integer itself, whatever its sign.
\<close>

theorem upload_run_id:
  assumes "fst (upload c proj rd meta cfg w) = Inr r"
  shows "\<exists>req resp ms.
           upload_request c proj rd meta cfg (fs w) = Inr req
           \<and> server w req = Inr resp
           \<and> json_body resp = Some (JObj ms)
           \<and> (case member ms ''run_id'' of
                 None \<Rightarrow> run_id r = 0
               | Some (JNum i) \<Rightarrow> run_id r = i
               | Some j \<Rightarrow> py_int (json_loads j) = Inr (run_id r))"
proof -
  from upload_InrD [OF assms] obtain req resp where
    q: "upload_request c proj rd meta cfg (fs w) = Inr req" and
    s: "server w req = Inr resp" and
    u: "upload_response proj resp = Inr r"
    by blast
  from upload_response_InrD [OF u] obtain ms where
    ct: "str_contains ''application/json'' (response_content_type resp)" and
    b: "json_body resp = Some (JObj ms)"
    by blast
  have "py_int (case member ms ''run_id'' of None \<Rightarrow> PyInt 0 | Some j \<Rightarrow> json_loads j)
          = Inr (run_id r)"
    using u upload_response_object [OF ct b, of proj] by (auto split: sum.splits)
  then have "case member ms ''run_id'' of
                 None \<Rightarrow> run_id r = 0
               | Some (JNum i) \<Rightarrow> run_id r = i
               | Some j \<Rightarrow> py_int (json_loads j) = Inr (run_id r)"
    by (auto split: option.splits json.splits)
  with q s b show ?thesis by blast
qed

lemma example_answer:
  "fst (upload example_client ''p1'' [''allure-results''] PyNone None (example_world resp))
     = upload_response ''p1'' resp"
  using example_posted(1) [OF example_request_built [OF json_dumps_no_meta config_files_none]] .

lemma upload_response_run_id_only:
  "upload_response proj (json_response code (JObj [(''run_id'', JNum i)]))
     = Inr \<lparr>project = PyStr proj, run_id = i, ui_url = PyStr [], latest_url = PyStr [],
            status = PyStr ''unknown'', error = PyNone\<rparr>"
proof -
  have 1: "str_contains ''application/json''
             (response_content_type (json_response code (JObj [(''run_id'', JNum i)])))"
    by (rule json_response_ok)
  have 2: "json_body (json_response code (JObj [(''run_id'', JNum i)]))
             = Some (JObj [(''run_id'', JNum i)])"
    by (rule json_response_ok)
  from upload_response_object [OF 1 2, of proj] show ?thesis
    by (simp add: member_def)
qed

theorem upload_run_id_witness:
  "fst (upload example_client ''p1'' [''allure-results''] PyNone None
          (example_world (json_response 200 (JObj [(''run_id'', JNum 7)]))))
     = Inr \<lparr>project = PyStr ''p1'', run_id = 7, ui_url = PyStr [], latest_url = PyStr [],
            status = PyStr ''unknown'', error = PyNone\<rparr>
   \<and> (\<exists>req resp ms.
         upload_request example_client ''p1'' [''allure-results''] PyNone None
           (fs (example_world (json_response 200 (JObj [(''run_id'', JNum 7)])))) = Inr req
         \<and> server (example_world (json_response 200 (JObj [(''run_id'', JNum 7)]))) req = Inr resp
         \<and> json_body resp = Some (JObj ms)
         \<and> (case member ms ''run_id'' of
               None \<Rightarrow> (7::int) = 0
             | Some (JNum i) \<Rightarrow> 7 = i
             | Some j \<Rightarrow> py_int (json_loads j) = Inr 7))"
proof -
  have a: "fst (upload example_client ''p1'' [''allure-results''] PyNone None
          (example_world (json_response 200 (JObj [(''run_id'', JNum 7)]))))
     = Inr \<lparr>project = PyStr ''p1'', run_id = 7, ui_url = PyStr [], latest_url = PyStr [],
            status = PyStr ''unknown'', error = PyNone\<rparr>"
    using example_answer upload_response_run_id_only by simp
  have b: "\<exists>req resp ms.
         upload_request example_client ''p1'' [''allure-results''] PyNone None
           (fs (example_world (json_response 200 (JObj [(''run_id'', JNum 7)])))) = Inr req
         \<and> server (example_world (json_response 200 (JObj [(''run_id'', JNum 7)]))) req = Inr resp
         \<and> json_body resp = Some (JObj ms)
         \<and> (case member ms ''run_id'' of
               None \<Rightarrow> (7::int) = 0
             | Some (JNum i) \<Rightarrow> 7 = i
             | Some j \<Rightarrow> py_int (json_loads j) = Inr 7)"
    using upload_run_id [OF a] by (simp only: upload_result.select_convs)
  from a b show ?thesis by (rule conjI)
qed

text \<open>
  Against C5 as stated: the service answers with run identifier -5, and the result
  returned carries -5.
\<close>

theorem upload_run_id_counterexample:
  "fst (upload example_client ''p1'' [''allure-results''] PyNone None
          (example_world (json_response 200 (JObj [(''run_id'', JNum (- 5))]))))
     = Inr \<lparr>project = PyStr ''p1'', run_id = - 5, ui_url = PyStr [], latest_url = PyStr [],
            status = PyStr ''unknown'', error = PyNone\<rparr>
   \<and> run_id \<lparr>project = PyStr ''p1'', run_id = - 5, ui_url = PyStr [], latest_url = PyStr [],
            status = PyStr ''unknown'', error = PyNone\<rparr> < 0"
  using example_answer upload_response_run_id_only by simp


section \<open>The entries of the archive\<close>








section \<open>The metadata document\<close>

lemma dict_set_fresh:
  "k \<notin> fst ` set d \<Longrightarrow> dict_set (KStr k') v d = d @ [(KStr k', v)]" if "k = KStr k'"
  using that by (induction d) auto

lemma dict_get_str_map_of: "dict_get (KStr k) d = map_of d (KStr k)"
  by (induction d) auto

lemma json_native_round_trip:
  "json_native v \<Longrightarrow> json_dumps v = Inr j \<Longrightarrow> json_loads j = v"
  "json_native_list xs \<Longrightarrow> json_dumps_list xs = Inr js \<Longrightarrow> json_loads_list js = xs"
  "json_native_items kvs \<Longrightarrow> json_dumps_items kvs = Inr ms \<Longrightarrow>
     distinct (map fst kvs) \<Longrightarrow> fst ` set kvs \<inter> fst ` set d = {} \<Longrightarrow>
     json_loads_members ms d = d @ kvs"
proof (induction v and xs and kvs arbitrary: j and js and ms d
    rule: json_native_json_native_list_json_native_items.induct)
  case (3 i)
  then show ?case by (auto split: sum.splits)
next
  case (6 xs)
  then show ?case by (auto split: sum.splits)
next
  case (8 kvs)
  from 8(3) obtain ms where ms: "json_dumps_items kvs = Inr ms" and j: "j = JObj ms"
    by (auto split: sum.splits)
  have "json_loads_members ms [] = [] @ kvs"
    using 8(1) [OF _ ms, of "[]"] 8(2) by simp
  with j show ?case by simp
next
  case (11 x xs)
  then show ?case by (auto split: sum.splits)
next
  case (13 k v rest)
  then obtain s where k: "k = KStr s"
    by (cases k) simp_all
  from 13(4) k obtain jv ms' where
    jv: "json_dumps v = Inr jv" and ms': "json_dumps_items rest = Inr ms'" and
    ms: "ms = (s, jv) # ms'"
    by (auto split: sum.splits)
  have v: "json_loads jv = v"
    using 13(1) [OF _ jv] 13(3) by simp
  have f: "k \<notin> fst ` set d" using 13(6) by auto
  have 1: "dict_set (KStr s) v d = d @ [(KStr s, v)]"
    using dict_set_fresh [OF k f] .
  have 2: "distinct (map fst rest)" "fst ` set rest \<inter> fst ` set (d @ [(KStr s, v)]) = {}"
    using 13(5,6) k by auto
  have "json_loads_members ms' (d @ [(KStr s, v)]) = (d @ [(KStr s, v)]) @ rest"
    using 13(2) [OF _ ms' 2] 13(3) by simp
  then show ?case
    using ms v 1 k by simp
qed auto

lemma num_eq_self [simp]:
  "num_eq (FFinite (if b then 1 else 0)) (PyBool b)"
  "num_eq (FFinite (of_int i)) (PyInt i)"
  "f \<noteq> FNaN \<Longrightarrow> num_eq f (PyFloat f)"
  by (simp_all add: num_eq_def)

lemma py_eq_native_refl:
  "json_native v \<Longrightarrow> py_eq v v"
  "json_native_list xs \<Longrightarrow> py_eq_list xs xs"
  "json_native_items kvs \<Longrightarrow>
     (\<forall>ys. distinct (map fst ys) \<and> set kvs \<subseteq> set ys \<longrightarrow> py_eq_items kvs ys)"
proof (induction v and xs and kvs rule: json_native_json_native_list_json_native_items.induct)
  case (13 k v rest)
  then obtain s where k: "k = KStr s"
    by (cases k) simp_all
  have "py_eq_items ((k, v) # rest) ys"
    if a: "distinct (map fst ys)" and b: "set ((k, v) # rest) \<subseteq> set ys" for ys
  proof -
    have "map_of ys k = Some v"
      using a b by (simp add: map_of_is_SomeI)
    then have "dict_get k ys = Some v"
      using k by (simp add: dict_get_str_map_of)
    moreover have "py_eq v v" using 13 by simp
    moreover have "py_eq_items rest ys" using 13 a b by simp
    ultimately show ?thesis by simp
  qed
  then show ?case by blast
qed auto

lemma int_repr_small: "\<bar>i\<bar> < 10 ^ 6 \<Longrightarrow> int_repr i = Inr (str_of_int i)"
proof -
  assume a: "\<bar>i\<bar> < 10 ^ 6"
  have "(10::int) ^ 6 \<le> 10 ^ max_str_digits"
    by (rule power_increasing) (simp_all add: max_str_digits_def)
  with a show ?thesis by (simp add: int_repr_def)
qed

lemma int_repr_limit: "int_repr (10 ^ max_str_digits) = Inl ValueError"
  by (simp add: int_repr_def)

text \<open>
  C9, as amended. For a metadata map that \<^verbatim>\<open>json.dumps\<close> accepts and that holds no
  tuple, no not-a-number and no dictionary key other than a string, the document
  \<^verbatim>\<open>upload\<close> places in the metadata part decodes to a value equal to the map:
  identical, and so equal under Python's \<^verbatim>\<open>==\<close>.
\<close>

theorem metadata_round_trip:
  assumes "json_native (PyDict kvs)"
    and "json_dumps (PyDict kvs) = Inr doc"
  shows "json_loads doc = PyDict kvs
         \<and> py_eq (json_loads doc) (PyDict kvs)
         \<and> (\<forall>req. upload_request c proj rd (PyDict kvs) cfg fsys = Inr req \<longrightarrow>
                files req ! 1 = \<lparr>field_name = ''meta'', filename = None,
                                 content = JsonText doc, content_type = ''application/json''\<rparr>)"
proof -
  have l: "json_loads doc = PyDict kvs"
    using json_native_round_trip(1) [OF assms] .
  have e: "py_eq (json_loads doc) (PyDict kvs)"
    using py_eq_native_refl(1) [OF assms(1)] l by simp
  have m: "meta_or_empty (PyDict kvs) = PyDict kvs"
    by (simp add: meta_or_empty_def)
  have "files req ! 1 = \<lparr>field_name = ''meta'', filename = None,
                          content = JsonText doc, content_type = ''application/json''\<rparr>"
    if "upload_request c proj rd (PyDict kvs) cfg fsys = Inr req" for req
    using upload_request_InrD [OF that] assms(2) m by (auto simp: meta_part_def)
  with l e show ?thesis by blast
qed

lemma example_meta_native: "json_native (PyDict example_meta)"
  by (simp add: example_meta_def)

lemma example_meta_dumps: "json_dumps (PyDict example_meta) = Inr example_meta_doc"
  by (simp add: example_meta_def example_meta_doc_def int_repr_small)

theorem metadata_round_trip_witness:
  "json_native (PyDict example_meta)
   \<and> json_dumps (PyDict example_meta) = Inr example_meta_doc
   \<and> json_loads example_meta_doc = PyDict example_meta
   \<and> py_eq (json_loads example_meta_doc) (PyDict example_meta)
   \<and> files (example_request ''p1'' example_meta_doc []) ! 1
       = \<lparr>field_name = ''meta'', filename = None,
          content = JsonText example_meta_doc, content_type = ''application/json''\<rparr>"
proof -
  have m: "json_dumps (meta_or_empty (PyDict example_meta)) = Inr example_meta_doc"
    using example_meta_dumps by (simp add: meta_or_empty_def example_meta_def)
  have r: "upload_request example_client ''p1'' [''allure-results''] (PyDict example_meta) None example_fs
             = Inr (example_request ''p1'' example_meta_doc [])"
    using example_request_built [OF m config_files_none] .
  from metadata_round_trip [OF example_meta_native example_meta_dumps,
      of example_client "''p1''" "[''allure-results'']" None example_fs]
  have l: "json_loads example_meta_doc = PyDict example_meta" and
    e: "py_eq (json_loads example_meta_doc) (PyDict example_meta)" and
    f: "\<forall>req. upload_request example_client ''p1'' [''allure-results''] (PyDict example_meta) None
                 example_fs = Inr req \<longrightarrow>
               files req ! 1 = \<lparr>field_name = ''meta'', filename = None,
                                content = JsonText example_meta_doc,
                                content_type = ''application/json''\<rparr>"
    by blast+
  with r example_meta_native example_meta_dumps show ?thesis by blast
qed

text \<open>
  Against C9 as stated: metadata holding a tuple is serializable, its document holds
  an array, and the array decodes to a list, which is not equal to the tuple.
\<close>

theorem metadata_round_trip_counterexample:
  "upload_request example_client ''p1'' [''allure-results''] tuple_meta None example_fs
     = Inr (example_request ''p1'' (JObj [(''shards'', JArr [JNum 1, JNum 2])]) [])
   \<and> json_loads (JObj [(''shards'', JArr [JNum 1, JNum 2])])
       = PyDict [(KStr ''shards'', PyList [PyInt 1, PyInt 2])]
   \<and> \<not> py_eq (PyDict [(KStr ''shards'', PyList [PyInt 1, PyInt 2])]) tuple_meta"
proof -
  have m: "json_dumps (meta_or_empty tuple_meta) = Inr (JObj [(''shards'', JArr [JNum 1, JNum 2])])"
    by (simp add: meta_or_empty_def tuple_meta_def int_repr_small)
  have r: "upload_request example_client ''p1'' [''allure-results''] tuple_meta None example_fs
             = Inr (example_request ''p1'' (JObj [(''shards'', JArr [JNum 1, JNum 2])]) [])"
    using example_request_built [OF m config_files_none] .
  have l: "json_loads (JObj [(''shards'', JArr [JNum 1, JNum 2])])
       = PyDict [(KStr ''shards'', PyList [PyInt 1, PyInt 2])]"
    by simp
  have n: "\<not> py_eq (PyDict [(KStr ''shards'', PyList [PyInt 1, PyInt 2])]) tuple_meta"
    by (simp add: tuple_meta_def)
  from r l n show ?thesis by blast
qed

section \<open>What the string test means\<close>

lemma starts_with_iff: "starts_with xs ys \<longleftrightarrow> (\<exists>ss. ys = xs @ ss)"
  by (induction xs ys rule: starts_with.induct) auto

lemma str_contains_iff: "str_contains needle hay \<longleftrightarrow> (\<exists>ps ss. hay = ps @ needle @ ss)"
proof (induction hay)
  case Nil
  show ?case by auto
next
  case (Cons y ys)
  show ?case
  proof
    assume "str_contains needle (y # ys)"
    then consider "starts_with needle (y # ys)" | "str_contains needle ys"
      by auto
    then show "\<exists>ps ss. y # ys = ps @ needle @ ss"
    proof cases
      case 1
      then obtain ss where "y # ys = needle @ ss"
        using starts_with_iff by blast
      then have "y # ys = [] @ needle @ ss" by simp
      then show ?thesis by blast
    next
      case 2
      with Cons.IH obtain ps ss where "ys = ps @ needle @ ss" by blast
      then have "y # ys = (y # ps) @ needle @ ss" by simp
      then show ?thesis by blast
    qed
  next
    assume "\<exists>ps ss. y # ys = ps @ needle @ ss"
    then obtain ps ss where e: "y # ys = ps @ needle @ ss" by blast
    show "str_contains needle (y # ys)"
    proof (cases ps)
      case Nil
      with e have "starts_with needle (y # ys)"
        using starts_with_iff by auto
      then show ?thesis by simp
    next
      case (Cons p ps')
      with e have "ys = ps' @ needle @ ss" by simp
      with Cons.IH have "str_contains needle ys" by blast
      then show ?thesis by simp
    qed
  qed
qed

end
